theory Spec2Isabelle
  imports Complex_Main
begin

section \<open>The notebook \<open>mnist_pytorch_lightning\<close>\<close>

text \<open>
  The repository is one Jupyter notebook. Its code cells are, in document order:
  \<^enum> the imports;
  \<^enum> data preparation (a transform, the two MNIST datasets, \<open>random_split\<close>, three
    \<open>DataLoader\<close>s);
  \<^enum> the class \<open>MNISTModel\<close> (a \<open>LightningModule\<close>);
  \<^enum> \<open>mnist_model = MNISTModel()\<close> and \<open>trainer = Trainer(max_epochs=10, accelerator='gpu')\<close>;
  \<^enum> the two tensorboard magics;
  \<^enum> \<open>trainer.fit(...)\<close>;
  \<^enum> \<open>trainer.test(ckpt_path='best', dataloaders=test_data)\<close>.

  What the notebook itself writes is embedded as it stands: the layers, \<open>forward\<close> and the
  step methods of \<open>MNISTModel\<close>, the keyword arguments of every constructor, and the
  sequence of calls.
  The operations it calls in torch, torchvision and pytorch-lightning are not part of the
  notebook. The script is therefore embedded twice over them: once for an arbitrary
  framework (a record of operations that may raise), and, for the few operations whose
  arithmetic the properties below depend on, by a definition that follows the library's
  documented behaviour. Each such definition says so.

  Floating-point tensors are read as lists of reals; randomness (permutations, initial
  weights, dropout masks) is an explicit argument.
\<close>

subsection \<open>Errors\<close>

text \<open>The Python exceptions that the modelled operations raise.\<close>

datatype error = RuntimeError | ValueError | IndexError | MisconfigurationException

subsection \<open>Cell 3: the layers of \<open>MNISTModel\<close>\<close>

text \<open>A tensor of shape \<open>C \<times> H \<times> W\<close>; a batch is a list of them.\<close>

type_synonym image = "real list list list"

text \<open>
  \<open>nn.Linear(in_features, out_features)\<close>: a weight matrix of \<open>out_features\<close> rows and
  \<open>in_features\<close> columns and a bias vector. The initial entries are random draws of the
  library, given here as the functions \<open>w\<close> and \<open>b\<close>.
\<close>

record Linear =
  in_features :: nat
  out_features :: nat
  weight :: "real list list"
  bias :: "real list"

definition Linear_init :: "nat \<Rightarrow> nat \<Rightarrow> (nat \<Rightarrow> nat \<Rightarrow> real) \<Rightarrow> (nat \<Rightarrow> real) \<Rightarrow> Linear" where
  "Linear_init n_in n_out w b =
     \<lparr>in_features = n_in, out_features = n_out,
      weight = map (\<lambda>k. map (\<lambda>j. w k j) [0..<n_in]) [0..<n_out],
      bias = map b [0..<n_out]\<rparr>"

text \<open>One row through the layer: \<open>y\<^sub>k = (\<Sum>\<^sub>j v\<^sub>j * weight\<^sub>k\<^sub>j) + bias\<^sub>k\<close>.\<close>

definition affine :: "Linear \<Rightarrow> real list \<Rightarrow> real list" where
  "affine l v = map (\<lambda>(wrow, b). sum_list (map2 (*) v wrow) + b) (zip (weight l) (bias l))"

text \<open>
  Calling the layer on a batch of rows. A row whose length is not \<open>in_features\<close> makes
  torch raise a \<open>RuntimeError\<close> (shapes cannot be multiplied).
\<close>

definition Linear_forward :: "Linear \<Rightarrow> real list list \<Rightarrow> error + real list list" where
  "Linear_forward l x =
     (if list_all (\<lambda>row. length row = in_features l) x then Inr (map (affine l) x)
      else Inl RuntimeError)"

text \<open>\<open>nn.Flatten()\<close>: every sample of the batch becomes one row, in row-major order.\<close>

definition flatten :: "image list \<Rightarrow> real list list" where
  "flatten x = map (\<lambda>s. concat (concat s)) x"

text \<open>\<open>F.relu\<close>, elementwise.\<close>

definition relu :: "real list list \<Rightarrow> real list list" where
  "relu x = map (map (\<lambda>v. max 0 v)) x"

text \<open>
  \<open>nn.Dropout(p)\<close>. In training mode the element at row \<open>i\<close>, column \<open>j\<close> is kept and
  scaled by \<open>1 / (1 - p)\<close> when the mask \<open>keep i j\<close> holds, and zeroed otherwise; in
  evaluation mode the layer is the identity. The mask is the library's random draw.
\<close>

definition Dropout_forward :: "real \<Rightarrow> bool \<Rightarrow> (nat \<Rightarrow> nat \<Rightarrow> bool) \<Rightarrow> real list list \<Rightarrow> real list list" where
  "Dropout_forward p is_training keep x =
     (if is_training
      then map (\<lambda>(i, row). map (\<lambda>(j, v). if keep i j then v / (1 - p) else 0) (enumerate 0 row))
             (enumerate 0 x)
      else x)"

text \<open>\<open>torchmetrics.Accuracy()\<close>: the running counts of a metric object.\<close>

record Accuracy =
  correct :: nat
  total :: nat

text \<open>
  The attributes \<open>__init__\<close> sets: \<open>layer_1\<close>, \<open>layer_2\<close>, \<open>dropout\<close> (its rate),
  the three metrics, and the \<open>training\<close> flag every \<open>nn.Module\<close> has. \<open>flatten\<close> has
  no state.
\<close>

record MNISTModel =
  layer_1 :: Linear
  layer_2 :: Linear
  dropout :: real
  training :: bool
  train_acc :: Accuracy
  val_acc :: Accuracy
  test_acc :: Accuracy

text \<open>\<open>MNISTModel.__init__\<close>, with the initial weights and biases of the two layers given.\<close>

definition MNISTModel_init ::
  "(nat \<Rightarrow> nat \<Rightarrow> real) \<Rightarrow> (nat \<Rightarrow> real) \<Rightarrow> (nat \<Rightarrow> nat \<Rightarrow> real) \<Rightarrow> (nat \<Rightarrow> real) \<Rightarrow> MNISTModel" where
  "MNISTModel_init w1 b1 w2 b2 =
     \<lparr>layer_1 = Linear_init (1 * 28 * 28) 512 w1 b1,
      layer_2 = Linear_init 512 10 w2 b2,
      dropout = 0.15,
      training = True,
      train_acc = \<lparr>correct = 0, total = 0\<rparr>,
      val_acc = \<lparr>correct = 0, total = 0\<rparr>,
      test_acc = \<lparr>correct = 0, total = 0\<rparr>\<rparr>"

text \<open>
  \<open>MNISTModel.forward\<close>, statement by statement:
  \<^verbatim>\<open>
    x = self.flatten(x)
    x = F.relu(self.layer_1(x))
    x = self.dropout(x)
    x = self.layer_2(x)
    return x
  \<close>
\<close>

definition forward :: "MNISTModel \<Rightarrow> (nat \<Rightarrow> nat \<Rightarrow> bool) \<Rightarrow> image list \<Rightarrow> error + real list list" where
  "forward self keep x =
     (let x1 = flatten x in
      case Linear_forward (layer_1 self) x1 of
        Inl e \<Rightarrow> Inl e
      | Inr h \<Rightarrow>
          (let x2 = relu h;
               x3 = Dropout_forward (dropout self) (training self) keep x2
           in Linear_forward (layer_2 self) x3))"

text \<open>
  The same computation in the words of the specification: a hidden layer of 512 rectified
  units over the 784 inputs, a dropout mask of rate 0.15, and ten class scores that are
  affine in the masked hidden units and are returned as they are.
\<close>

definition hidden_unit :: "(nat \<Rightarrow> nat \<Rightarrow> real) \<Rightarrow> (nat \<Rightarrow> real) \<Rightarrow> real list \<Rightarrow> nat \<Rightarrow> real" where
  "hidden_unit w1 b1 v j = max 0 ((\<Sum>l<784. v ! l * w1 j l) + b1 j)"

definition dropout_unit :: "bool \<Rightarrow> bool \<Rightarrow> real \<Rightarrow> real" where
  "dropout_unit is_training kept h = (if is_training then (if kept then h / (1 - 0.15) else 0) else h)"

definition class_score ::
  "(nat \<Rightarrow> nat \<Rightarrow> real) \<Rightarrow> (nat \<Rightarrow> real) \<Rightarrow> (nat \<Rightarrow> nat \<Rightarrow> real) \<Rightarrow> (nat \<Rightarrow> real) \<Rightarrow>
   bool \<Rightarrow> (nat \<Rightarrow> bool) \<Rightarrow> real list \<Rightarrow> nat \<Rightarrow> real" where
  "class_score w1 b1 w2 b2 is_training kept v k =
     (\<Sum>j<512. dropout_unit is_training (kept j) (hidden_unit w1 b1 v j) * w2 k j) + b2 k"

definition forward_spec ::
  "(nat \<Rightarrow> nat \<Rightarrow> real) \<Rightarrow> (nat \<Rightarrow> real) \<Rightarrow> (nat \<Rightarrow> nat \<Rightarrow> real) \<Rightarrow> (nat \<Rightarrow> real) \<Rightarrow>
   bool \<Rightarrow> (nat \<Rightarrow> nat \<Rightarrow> bool) \<Rightarrow> image list \<Rightarrow> error + real list list" where
  "forward_spec w1 b1 w2 b2 is_training keep x =
     (if \<forall>s \<in> set x. length (concat (concat s)) = 784
      then Inr (map (\<lambda>(i, s). map (class_score w1 b1 w2 b2 is_training (keep i) (concat (concat s))) [0..<10])
                 (enumerate 0 x))
      else Inl RuntimeError)"

subsection \<open>Cells 2 and 4: the keyword arguments the notebook passes\<close>

text \<open>
  A keyword argument is \<open>Some v\<close> when the notebook passes \<open>v\<close> and \<open>None\<close> when the
  notebook leaves the argument out, so that the library's default applies.
\<close>

record DataLoader_kwargs =
  batch_size :: "nat option"
  shuffle :: "bool option"
  num_workers :: "nat option"
  drop_last :: "bool option"

text \<open>\<open>DataLoader(training_data, batch_size=64, shuffle=True, num_workers=4)\<close>\<close>

definition training_loader_kwargs :: DataLoader_kwargs where
  "training_loader_kwargs =
     \<lparr>batch_size = Some 64, shuffle = Some True, num_workers = Some 4, drop_last = None\<rparr>"

text \<open>\<open>DataLoader(validation_data, batch_size=64, shuffle=False, num_workers=4)\<close>\<close>

definition validation_loader_kwargs :: DataLoader_kwargs where
  "validation_loader_kwargs =
     \<lparr>batch_size = Some 64, shuffle = Some False, num_workers = Some 4, drop_last = None\<rparr>"

text \<open>\<open>DataLoader(test_data, batch_size=64, shuffle=False, num_workers=4)\<close>\<close>

definition test_loader_kwargs :: DataLoader_kwargs where
  "test_loader_kwargs =
     \<lparr>batch_size = Some 64, shuffle = Some False, num_workers = Some 4, drop_last = None\<rparr>"

record Trainer_kwargs =
  max_epochs :: "nat option"
  accelerator :: "string option"
  devices :: "nat option"
  strategy :: "string option"

text \<open>\<open>Trainer(max_epochs=10, accelerator='gpu')\<close>\<close>

definition trainer_kwargs :: Trainer_kwargs where
  "trainer_kwargs =
     \<lparr>max_epochs = Some 10, accelerator = Some ''gpu'', devices = None, strategy = None\<rparr>"

text \<open>\<open>random_split(training_data, [55_000, 5_000])\<close>\<close>

definition split_lengths :: "nat list" where
  "split_lengths = [55000, 5000]"

text \<open>The \<open>ckpt_path\<close> argument of \<open>trainer.test\<close>: the string \<open>'best'\<close> or a file path.\<close>

datatype ckpt_path = Best | Path string

subsection \<open>The script over an arbitrary framework\<close>

text \<open>
  Every call the notebook makes into a library, named by what is called. The three
  loaders and the three metrics are told apart by the partition they serve.
  \<open>seed_everything\<close> is imported by the first cell, so it is a call the notebook could
  make.
\<close>

datatype partition = Training | Validation | Test

datatype call =
    call_import
  | call_Compose
  | call_MNIST bool
  | call_random_split
  | call_DataLoader partition
  | call_LightningModule_init
  | call_Linear_1
  | call_Linear_2
  | call_Dropout
  | call_Flatten
  | call_Accuracy partition
  | call_Trainer
  | call_reload_ext
  | call_tensorboard
  | call_fit
  | call_test
  | call_seed_everything

text \<open>What is recorded of a call once it is over: it returned, or it raised \<open>e\<close>.\<close>

datatype 'e event = Returned call | Raised call 'e


text \<open>
  A failure of the script: an exception \<open>e\<close> of the framework, or the \<open>ValueError\<close> that
  Python itself raises when \<open>training_data, validation_data = ...\<close> unpacks a list that
  does not have two elements.
\<close>

datatype 'e failure = Framework 'e | Unpack_ValueError

text \<open>
  The framework: one field per library operation the notebook calls. Each operation runs
  in a world \<open>'w\<close> (files, devices, the random generator, the objects it mutates) and
  either raises an exception \<open>'e\<close> or returns a value; the world it leaves is returned in
  both cases. \<open>fw_Compose\<close> is the whole expression
  \<open>transforms.Compose([transforms.ToTensor(), transforms.Normalize(mean=0.5, std=0.5)])\<close>;
  \<open>fw_MNIST\<close> takes \<open>root\<close>, \<open>train\<close>, \<open>download\<close> and \<open>transform\<close>; \<open>fw_fit\<close>
  mutates the trainer and the model, which it therefore returns, and \<open>fw_test\<close> is
  given no model: it uses the one the trainer holds.
\<close>

record ('e, 'w, 'tf, 'ds, 'dl, 'tr, 'res) framework =
  fw_import :: "'w \<Rightarrow> ('e + unit) \<times> 'w"
  fw_Compose :: "'w \<Rightarrow> ('e + 'tf) \<times> 'w"
  fw_MNIST :: "string \<Rightarrow> bool \<Rightarrow> bool \<Rightarrow> 'tf \<Rightarrow> 'w \<Rightarrow> ('e + 'ds) \<times> 'w"
  fw_random_split :: "'ds \<Rightarrow> nat list \<Rightarrow> 'w \<Rightarrow> ('e + 'ds list) \<times> 'w"
  fw_DataLoader :: "'ds \<Rightarrow> DataLoader_kwargs \<Rightarrow> 'w \<Rightarrow> ('e + 'dl) \<times> 'w"
  fw_LightningModule_init :: "'w \<Rightarrow> ('e + unit) \<times> 'w"
  fw_Linear :: "nat \<Rightarrow> nat \<Rightarrow> 'w \<Rightarrow> ('e + Linear) \<times> 'w"
  fw_Dropout :: "real \<Rightarrow> 'w \<Rightarrow> ('e + real) \<times> 'w"
  fw_Flatten :: "'w \<Rightarrow> ('e + unit) \<times> 'w"
  fw_Accuracy :: "'w \<Rightarrow> ('e + Accuracy) \<times> 'w"
  fw_Trainer :: "Trainer_kwargs \<Rightarrow> 'w \<Rightarrow> ('e + 'tr) \<times> 'w"
  fw_reload_ext :: "string \<Rightarrow> 'w \<Rightarrow> ('e + unit) \<times> 'w"
  fw_tensorboard :: "string \<Rightarrow> 'w \<Rightarrow> ('e + unit) \<times> 'w"
  fw_fit :: "'tr \<Rightarrow> MNISTModel \<Rightarrow> 'dl \<Rightarrow> 'dl \<Rightarrow> 'w \<Rightarrow> ('e + 'tr \<times> MNISTModel) \<times> 'w"
  fw_test :: "'tr \<Rightarrow> ckpt_path \<Rightarrow> 'dl \<Rightarrow> 'w \<Rightarrow> ('e + 'res) \<times> 'w"

text \<open>
  A piece of the script: from the events so far and the world, to an outcome, the events
  and the world afterwards.
\<close>

type_synonym ('e, 'w, 'a) prog = "'e event list \<times> 'w \<Rightarrow> ('e failure + 'a) \<times> 'e event list \<times> 'w"

text \<open>
  A call of the framework from the notebook. The notebook has no exception handler, so what the
  operation raises is what the statement raises.
\<close>

definition invoke :: "call \<Rightarrow> ('w \<Rightarrow> ('e + 'a) \<times> 'w) \<Rightarrow> ('e, 'w, 'a) prog" where
  "invoke c op = (\<lambda>(tr, w).
     case op w of
       (Inl e, w') \<Rightarrow> (Inl (Framework e), tr @ [Raised c e], w')
     | (Inr a, w') \<Rightarrow> (Inr a, tr @ [Returned c], w'))"

text \<open>One statement after another: the second runs only when the first has returned.\<close>

definition seq :: "('e, 'w, 'a) prog \<Rightarrow> ('a \<Rightarrow> ('e, 'w, 'b) prog) \<Rightarrow> ('e, 'w, 'b) prog" where
  "seq p f = (\<lambda>s.
     case p s of
       (Inl err, s') \<Rightarrow> (Inl err, s')
     | (Inr a, s') \<Rightarrow> f a s')"

definition ret :: "'a \<Rightarrow> ('e, 'w, 'a) prog" where
  "ret a = (\<lambda>s. (Inr a, s))"

text \<open>\<open>a, b = xs\<close>\<close>

definition unpack2 :: "'a list \<Rightarrow> ('e, 'w, 'a \<times> 'a) prog" where
  "unpack2 xs = (\<lambda>s. case xs of [a, b] \<Rightarrow> (Inr (a, b), s) | _ \<Rightarrow> (Inl Unpack_ValueError, s))"

text \<open>Cell 1.\<close>

definition cell_imports :: "('e, 'w, 'tf, 'ds, 'dl, 'tr, 'res) framework \<Rightarrow> ('e, 'w, unit) prog" where
  "cell_imports fw = invoke call_import (fw_import fw)"

text \<open>
  Cell 2. The names \<open>training_data\<close>, \<open>validation_data\<close> and \<open>test_data\<close> are rebound
  as in the notebook: first the datasets, at the end the loaders.
\<close>

definition cell_data_preparation ::
  "('e, 'w, 'tf, 'ds, 'dl, 'tr, 'res) framework \<Rightarrow> ('e, 'w, 'dl \<times> 'dl \<times> 'dl) prog" where
  "cell_data_preparation fw =
     seq (invoke call_Compose (fw_Compose fw)) (\<lambda>transform.
     seq (invoke (call_MNIST True) (fw_MNIST fw ''data'' True True transform)) (\<lambda>training_data.
     seq (invoke (call_MNIST False) (fw_MNIST fw ''data'' False True transform)) (\<lambda>test_data.
     seq (invoke call_random_split (fw_random_split fw training_data split_lengths)) (\<lambda>parts.
     seq (unpack2 parts) (\<lambda>(training_data, validation_data).
     seq (invoke (call_DataLoader Training)
            (fw_DataLoader fw training_data training_loader_kwargs)) (\<lambda>training_data.
     seq (invoke (call_DataLoader Validation)
            (fw_DataLoader fw validation_data validation_loader_kwargs)) (\<lambda>validation_data.
     seq (invoke (call_DataLoader Test)
            (fw_DataLoader fw test_data test_loader_kwargs)) (\<lambda>test_data.
     ret (training_data, validation_data, test_data)))))))))"

text \<open>\<open>MNISTModel()\<close>: the constructor of cell 3, run by cell 4.\<close>

definition MNISTModel_new :: "('e, 'w, 'tf, 'ds, 'dl, 'tr, 'res) framework \<Rightarrow> ('e, 'w, MNISTModel) prog" where
  "MNISTModel_new fw =
     seq (invoke call_LightningModule_init (fw_LightningModule_init fw)) (\<lambda>_.
     seq (invoke call_Linear_1 (fw_Linear fw (1 * 28 * 28) 512)) (\<lambda>l1.
     seq (invoke call_Linear_2 (fw_Linear fw 512 10)) (\<lambda>l2.
     seq (invoke call_Dropout (fw_Dropout fw 0.15)) (\<lambda>p.
     seq (invoke call_Flatten (fw_Flatten fw)) (\<lambda>_.
     seq (invoke (call_Accuracy Training) (fw_Accuracy fw)) (\<lambda>a1.
     seq (invoke (call_Accuracy Validation) (fw_Accuracy fw)) (\<lambda>a2.
     seq (invoke (call_Accuracy Test) (fw_Accuracy fw)) (\<lambda>a3.
     ret \<lparr>layer_1 = l1, layer_2 = l2, dropout = p, training = True,
          train_acc = a1, val_acc = a2, test_acc = a3\<rparr>))))))))"

text \<open>Cell 4.\<close>

definition cell_initialize ::
  "('e, 'w, 'tf, 'ds, 'dl, 'tr, 'res) framework \<Rightarrow> ('e, 'w, MNISTModel \<times> 'tr) prog" where
  "cell_initialize fw =
     seq (MNISTModel_new fw) (\<lambda>mnist_model.
     seq (invoke call_Trainer (fw_Trainer fw trainer_kwargs)) (\<lambda>trainer.
     ret (mnist_model, trainer)))"

text \<open>Cell 5: \<open>%reload_ext tensorboard\<close> and \<open>%tensorboard --logdir=lightning_logs/\<close>.\<close>

definition cell_logging :: "('e, 'w, 'tf, 'ds, 'dl, 'tr, 'res) framework \<Rightarrow> ('e, 'w, unit) prog" where
  "cell_logging fw =
     seq (invoke call_reload_ext (fw_reload_ext fw ''tensorboard'')) (\<lambda>_.
     invoke call_tensorboard (fw_tensorboard fw ''lightning_logs/''))"

text \<open>Cell 6.\<close>

definition cell_training ::
  "('e, 'w, 'tf, 'ds, 'dl, 'tr, 'res) framework \<Rightarrow> 'tr \<Rightarrow> MNISTModel \<Rightarrow> 'dl \<Rightarrow> 'dl \<Rightarrow>
   ('e, 'w, 'tr \<times> MNISTModel) prog" where
  "cell_training fw trainer mnist_model training_data validation_data =
     invoke call_fit (fw_fit fw trainer mnist_model training_data validation_data)"

text \<open>Cell 7. The value of the cell is what \<open>trainer.test\<close> returns: the metrics.\<close>

definition cell_evaluation ::
  "('e, 'w, 'tf, 'ds, 'dl, 'tr, 'res) framework \<Rightarrow> 'tr \<Rightarrow> 'dl \<Rightarrow> ('e, 'w, 'res) prog" where
  "cell_evaluation fw trainer test_data = invoke call_test (fw_test fw trainer Best test_data)"

text \<open>The notebook: its code cells from top to bottom.\<close>

definition notebook :: "('e, 'w, 'tf, 'ds, 'dl, 'tr, 'res) framework \<Rightarrow> ('e, 'w, 'res) prog" where
  "notebook fw =
     seq (cell_imports fw) (\<lambda>_.
     seq (cell_data_preparation fw) (\<lambda>(training_data, validation_data, test_data).
     seq (cell_initialize fw) (\<lambda>(mnist_model, trainer).
     seq (cell_logging fw) (\<lambda>_.
     seq (cell_training fw trainer mnist_model training_data validation_data) (\<lambda>(trainer, mnist_model).
     cell_evaluation fw trainer test_data)))))"

text \<open>
  The order in which the specification lists the steps: load and transform the data,
  instantiate the classifier, instantiate the trainer, \<open>fit\<close>, \<open>test\<close>. The imports come
  before and the tensorboard magics between.
\<close>

definition notebook_calls :: "call list" where
  "notebook_calls =
     [call_import,
      call_Compose, call_MNIST True, call_MNIST False, call_random_split,
      call_DataLoader Training, call_DataLoader Validation, call_DataLoader Test,
      call_LightningModule_init, call_Linear_1, call_Linear_2, call_Dropout, call_Flatten,
      call_Accuracy Training, call_Accuracy Validation, call_Accuracy Test,
      call_Trainer,
      call_reload_ext, call_tensorboard,
      call_fit,
      call_test]"


text \<open>
  A framework small enough to run the script on: a dataset is a name, a loader the
  dataset and the arguments it was made with, a trainer its arguments and the loaders it
  was fitted on, and the test result everything \<open>test\<close> was given. The world is whether a
  GPU is there; \<open>Trainer(accelerator='gpu')\<close> raises when it is not.
\<close>

datatype stub_dataset = Whole bool | Part nat

type_synonym stub_loader = "stub_dataset \<times> DataLoader_kwargs"

type_synonym stub_trainer = "Trainer_kwargs \<times> (stub_loader \<times> stub_loader) option"

definition stub_framework ::
  "(error, bool, unit, stub_dataset, stub_loader, stub_trainer, stub_trainer \<times> ckpt_path \<times> stub_loader) framework" where
  "stub_framework =
     \<lparr>fw_import = (\<lambda>gpu. (Inr (), gpu)),
      fw_Compose = (\<lambda>gpu. (Inr (), gpu)),
      fw_MNIST = (\<lambda>root train_flag download tf gpu. (Inr (Whole train_flag), gpu)),
      fw_random_split = (\<lambda>ds lengths gpu. (Inr (map Part [0..<length lengths]), gpu)),
      fw_DataLoader = (\<lambda>ds kw gpu. (Inr (ds, kw), gpu)),
      fw_LightningModule_init = (\<lambda>gpu. (Inr (), gpu)),
      fw_Linear = (\<lambda>n_in n_out gpu. (Inr (Linear_init n_in n_out (\<lambda>k j. 0) (\<lambda>k. 0)), gpu)),
      fw_Dropout = (\<lambda>p gpu. (Inr p, gpu)),
      fw_Flatten = (\<lambda>gpu. (Inr (), gpu)),
      fw_Accuracy = (\<lambda>gpu. (Inr \<lparr>correct = 0, total = 0\<rparr>, gpu)),
      fw_Trainer = (\<lambda>kw gpu.
         (if accelerator kw = Some ''gpu'' \<and> \<not> gpu then Inl MisconfigurationException
          else Inr (kw, None), gpu)),
      fw_reload_ext = (\<lambda>ext gpu. (Inr (), gpu)),
      fw_tensorboard = (\<lambda>logdir gpu. (Inr (), gpu)),
      fw_fit = (\<lambda>trainer model train_dl val_dl gpu.
         (Inr ((fst trainer, Some (train_dl, val_dl)), model), gpu)),
      fw_test = (\<lambda>trainer ckpt dl gpu. (Inr (trainer, ckpt, dl), gpu))\<rparr>"

subsection \<open>Cell 3: the steps of \<open>MNISTModel\<close>\<close>

text \<open>
  The methods of \<open>MNISTModel\<close> that the trainer calls back: \<open>training_step\<close>,
  \<open>validation_step\<close>, \<open>test_step\<close> and \<open>configure_optimizers\<close>. What they call is
  library code: \<open>self(x)\<close> (\<open>nn.Module.__call__\<close>, which runs \<open>forward\<close>),
  \<open>F.cross_entropy\<close>, the three metric objects (called, or updated), \<open>self.log\<close> (of a
  number, or of a metric object), \<open>self.parameters()\<close> and \<open>torch.optim.Adam\<close>. As for the
  script, each is an operation that runs in a world (here it holds the module, its
  metrics and the logger) and either raises or returns; \<open>self\<close> is the record of these
  operations. A keyword argument the notebook leaves out is \<open>None\<close>.
\<close>

record ('e, 'w, 'ps, 'opt) module_api =
  api_call :: "image list \<Rightarrow> 'w \<Rightarrow> ('e + real list list) \<times> 'w"
  api_cross_entropy :: "real list list \<Rightarrow> nat list \<Rightarrow> 'w \<Rightarrow> ('e + real) \<times> 'w"
  api_metric_call :: "partition \<Rightarrow> real list list \<Rightarrow> nat list \<Rightarrow> 'w \<Rightarrow> ('e + real) \<times> 'w"
  api_metric_update :: "partition \<Rightarrow> real list list \<Rightarrow> nat list \<Rightarrow> 'w \<Rightarrow> ('e + unit) \<times> 'w"
  api_log :: "string \<Rightarrow> real \<Rightarrow> bool option \<Rightarrow> 'w \<Rightarrow> ('e + unit) \<times> 'w"
  api_log_metric :: "string \<Rightarrow> partition \<Rightarrow> bool option \<Rightarrow> 'w \<Rightarrow> ('e + unit) \<times> 'w"
  api_parameters :: "'w \<Rightarrow> ('e + 'ps) \<times> 'w"
  api_Adam :: "'ps \<Rightarrow> real \<Rightarrow> 'w \<Rightarrow> ('e + 'opt) \<times> 'w"

text \<open>
  A method body: from the world to what it raises or returns, and the world afterwards.
  The methods have no exception handler either: a statement that raises ends the method
  with that exception.
\<close>

type_synonym ('e, 'w, 'a) method_body = "'w \<Rightarrow> ('e + 'a) \<times> 'w"

definition and_then :: "('e, 'w, 'a) method_body \<Rightarrow> ('a \<Rightarrow> ('e, 'w, 'b) method_body) \<Rightarrow> ('e, 'w, 'b) method_body" where
  "and_then p f = (\<lambda>w.
     case p w of
       (Inl e, w') \<Rightarrow> (Inl e, w')
     | (Inr a, w') \<Rightarrow> f a w')"

definition return :: "'a \<Rightarrow> ('e, 'w, 'a) method_body" where
  "return a = (\<lambda>w. (Inr a, w))"

text \<open>
  \<^verbatim>\<open>
    def training_step(self, batch, batch_nb):
        x, y = batch
        y_pred = self(x)
        loss = F.cross_entropy(y_pred, y)
        accuracy = self.train_acc(y_pred, y)
        self.log('train_loss', loss)
        self.log('train_acc', accuracy)
        return loss
  \<close>
  A batch is the pair of the pictures and the labels, as the loader's collation makes it.
\<close>

definition MNISTModel_training_step ::
  "('e, 'w, 'ps, 'opt) module_api \<Rightarrow> image list \<times> nat list \<Rightarrow> nat \<Rightarrow> ('e, 'w, real) method_body" where
  "MNISTModel_training_step self batch batch_nb =
     (case batch of (x, y) \<Rightarrow>
        and_then (api_call self x) (\<lambda>y_pred.
        and_then (api_cross_entropy self y_pred y) (\<lambda>loss.
        and_then (api_metric_call self Training y_pred y) (\<lambda>accuracy.
        and_then (api_log self ''train_loss'' loss None) (\<lambda>_.
        and_then (api_log self ''train_acc'' accuracy None) (\<lambda>_.
        return loss))))))"

text \<open>
  \<^verbatim>\<open>
    def validation_step(self, batch, batch_nb):
        x, y = batch
        y_pred = self(x)
        loss = F.cross_entropy(y_pred, y)
        self.val_acc.update(y_pred, y)
        self.log("val_loss", loss, prog_bar=True)
        self.log("val_acc", self.val_acc, prog_bar=True)
        return loss
  \<close>
\<close>

definition MNISTModel_validation_step ::
  "('e, 'w, 'ps, 'opt) module_api \<Rightarrow> image list \<times> nat list \<Rightarrow> nat \<Rightarrow> ('e, 'w, real) method_body" where
  "MNISTModel_validation_step self batch batch_nb =
     (case batch of (x, y) \<Rightarrow>
        and_then (api_call self x) (\<lambda>y_pred.
        and_then (api_cross_entropy self y_pred y) (\<lambda>loss.
        and_then (api_metric_update self Validation y_pred y) (\<lambda>_.
        and_then (api_log self ''val_loss'' loss (Some True)) (\<lambda>_.
        and_then (api_log_metric self ''val_acc'' Validation (Some True)) (\<lambda>_.
        return loss))))))"

text \<open>
  \<^verbatim>\<open>
    def test_step(self, batch, batch_nb):
        x, y = batch
        y_pred = self(x)
        loss = F.cross_entropy(y_pred, y)
        accuracy = self.test_acc(y_pred, y)
        self.log('test_loss', loss)
        self.log("test_acc", accuracy)
        return loss
  \<close>
\<close>

definition MNISTModel_test_step ::
  "('e, 'w, 'ps, 'opt) module_api \<Rightarrow> image list \<times> nat list \<Rightarrow> nat \<Rightarrow> ('e, 'w, real) method_body" where
  "MNISTModel_test_step self batch batch_nb =
     (case batch of (x, y) \<Rightarrow>
        and_then (api_call self x) (\<lambda>y_pred.
        and_then (api_cross_entropy self y_pred y) (\<lambda>loss.
        and_then (api_metric_call self Test y_pred y) (\<lambda>accuracy.
        and_then (api_log self ''test_loss'' loss None) (\<lambda>_.
        and_then (api_log self ''test_acc'' accuracy None) (\<lambda>_.
        return loss))))))"

text \<open>\<open>return torch.optim.Adam(self.parameters(), lr=0.0005)\<close>\<close>

definition MNISTModel_configure_optimizers :: "('e, 'w, 'ps, 'opt) module_api \<Rightarrow> ('e, 'w, 'opt) method_body" where
  "MNISTModel_configure_optimizers self =
     and_then (api_parameters self) (\<lambda>ps. api_Adam self ps 0.0005)"

subsection \<open>What the libraries see of a run\<close>

text \<open>
  To say what the notebook does with an exception without relying on the notebook's own
  account of it, the operations are made to keep a log themselves: \<open>observe g op\<close> is the
  operation \<open>op\<close> that in addition appends to a log, kept in the world, the entry \<open>g\<close>
  (what was called, with the arguments received) and whether it returned (\<open>None\<close>) or
  which exception it raised. Nothing of the notebook takes part in writing this log.
\<close>

definition observe ::
  "'g \<Rightarrow> ('w \<Rightarrow> ('e + 'a) \<times> 'w) \<Rightarrow> ('g \<times> 'e option) list \<times> 'w \<Rightarrow> ('e + 'a) \<times> ('g \<times> 'e option) list \<times> 'w" where
  "observe g op = (\<lambda>(obs, w).
     case op w of
       (Inl e, w') \<Rightarrow> (Inl e, obs @ [(g, Some e)], w')
     | (Inr a, w') \<Rightarrow> (Inr a, obs @ [(g, None)], w'))"

text \<open>
  What an operation of the framework was called with, as far as the arguments are plain
  values: the keyword arguments of the loaders and of the trainer among them.
\<close>

datatype received =
    Got_import
  | Got_Compose
  | Got_MNIST string bool bool
  | Got_random_split "nat list"
  | Got_DataLoader DataLoader_kwargs
  | Got_LightningModule_init
  | Got_Linear nat nat
  | Got_Dropout real
  | Got_Flatten
  | Got_Accuracy
  | Got_Trainer Trainer_kwargs
  | Got_reload_ext string
  | Got_tensorboard string
  | Got_fit
  | Got_test ckpt_path

text \<open>Any framework, observed: the same operations, each keeping the log.\<close>

definition observed ::
  "('e, 'w, 'tf, 'ds, 'dl, 'tr, 'res) framework \<Rightarrow>
   ('e, (received \<times> 'e option) list \<times> 'w, 'tf, 'ds, 'dl, 'tr, 'res) framework" where
  "observed fw =
     \<lparr>fw_import = observe Got_import (fw_import fw),
      fw_Compose = observe Got_Compose (fw_Compose fw),
      fw_MNIST = (\<lambda>root train_flag download tf.
         observe (Got_MNIST root train_flag download) (fw_MNIST fw root train_flag download tf)),
      fw_random_split = (\<lambda>ds lengths. observe (Got_random_split lengths) (fw_random_split fw ds lengths)),
      fw_DataLoader = (\<lambda>ds kw. observe (Got_DataLoader kw) (fw_DataLoader fw ds kw)),
      fw_LightningModule_init = observe Got_LightningModule_init (fw_LightningModule_init fw),
      fw_Linear = (\<lambda>n_in n_out. observe (Got_Linear n_in n_out) (fw_Linear fw n_in n_out)),
      fw_Dropout = (\<lambda>p. observe (Got_Dropout p) (fw_Dropout fw p)),
      fw_Flatten = observe Got_Flatten (fw_Flatten fw),
      fw_Accuracy = observe Got_Accuracy (fw_Accuracy fw),
      fw_Trainer = (\<lambda>kw. observe (Got_Trainer kw) (fw_Trainer fw kw)),
      fw_reload_ext = (\<lambda>ext. observe (Got_reload_ext ext) (fw_reload_ext fw ext)),
      fw_tensorboard = (\<lambda>logdir. observe (Got_tensorboard logdir) (fw_tensorboard fw logdir)),
      fw_fit = (\<lambda>trainer model train_dl val_dl.
         observe Got_fit (fw_fit fw trainer model train_dl val_dl)),
      fw_test = (\<lambda>trainer ckpt dl. observe (Got_test ckpt) (fw_test fw trainer ckpt dl))\<rparr>"

text \<open>
  What the framework receives in a run of the notebook in which every call returns, in
  this order.
\<close>

definition notebook_receives :: "received list" where
  "notebook_receives =
     [Got_import,
      Got_Compose, Got_MNIST ''data'' True True, Got_MNIST ''data'' False True,
      Got_random_split [55000, 5000],
      Got_DataLoader \<lparr>batch_size = Some 64, shuffle = Some True, num_workers = Some 4, drop_last = None\<rparr>,
      Got_DataLoader \<lparr>batch_size = Some 64, shuffle = Some False, num_workers = Some 4, drop_last = None\<rparr>,
      Got_DataLoader \<lparr>batch_size = Some 64, shuffle = Some False, num_workers = Some 4, drop_last = None\<rparr>,
      Got_LightningModule_init, Got_Linear 784 512, Got_Linear 512 10, Got_Dropout 0.15, Got_Flatten,
      Got_Accuracy, Got_Accuracy, Got_Accuracy,
      Got_Trainer \<lparr>max_epochs = Some 10, accelerator = Some ''gpu'', devices = None, strategy = None\<rparr>,
      Got_reload_ext ''tensorboard'', Got_tensorboard ''lightning_logs/'',
      Got_fit,
      Got_test Best]"

text \<open>
  The calls that carry the settings of concurrency and batching: the construction of a
  loader and of the trainer.
\<close>

fun configuration :: "received \<Rightarrow> bool" where
  "configuration (Got_DataLoader kw) = True"
| "configuration (Got_Trainer kw) = True"
| "configuration _ = False"

text \<open>The same for the operations the steps of the module call.\<close>

datatype api_received =
    Got_call
  | Got_cross_entropy
  | Got_metric_call partition
  | Got_metric_update partition
  | Got_log string "bool option"
  | Got_log_metric string partition "bool option"
  | Got_parameters
  | Got_Adam real

definition observed_api ::
  "('e, 'w, 'ps, 'opt) module_api \<Rightarrow> ('e, (api_received \<times> 'e option) list \<times> 'w, 'ps, 'opt) module_api" where
  "observed_api api =
     \<lparr>api_call = (\<lambda>x. observe Got_call (api_call api x)),
      api_cross_entropy = (\<lambda>y_pred y. observe Got_cross_entropy (api_cross_entropy api y_pred y)),
      api_metric_call = (\<lambda>p y_pred y. observe (Got_metric_call p) (api_metric_call api p y_pred y)),
      api_metric_update = (\<lambda>p y_pred y. observe (Got_metric_update p) (api_metric_update api p y_pred y)),
      api_log = (\<lambda>name v prog_bar. observe (Got_log name prog_bar) (api_log api name v prog_bar)),
      api_log_metric = (\<lambda>name p prog_bar.
         observe (Got_log_metric name p prog_bar) (api_log_metric api name p prog_bar)),
      api_parameters = observe Got_parameters (api_parameters api),
      api_Adam = (\<lambda>ps lr. observe (Got_Adam lr) (api_Adam api ps lr))\<rparr>"

text \<open>
  \<open>observes p gs U\<close>: whatever was logged before, the operations that \<open>p\<close> calls log \<open>gs\<close>
  in this order, as far as \<open>p\<close> gets: up to the first one that raises, whose exception
  is then the outcome of \<open>p\<close>; the unpacking \<open>ValueError\<close> can be the outcome only after
  exactly \<open>k\<close> calls for a \<open>k\<close> in \<open>U\<close>.
\<close>

definition observes :: "('e, ('g \<times> 'e option) list \<times> 'w, 'a) prog \<Rightarrow> 'g list \<Rightarrow> nat set \<Rightarrow> bool" where
  "observes p gs U \<longleftrightarrow>
     (\<forall>tr obs w a tr' obs' w'. p (tr, obs, w) = (Inr a, tr', obs', w') \<longrightarrow>
        obs' = obs @ map (\<lambda>g. (g, None)) gs) \<and>
     (\<forall>tr obs w e tr' obs' w'. p (tr, obs, w) = (Inl (Framework e), tr', obs', w') \<longrightarrow>
        (\<exists>k<length gs. obs' = obs @ map (\<lambda>g. (g, None)) (take k gs) @ [(gs ! k, Some e)])) \<and>
     (\<forall>tr obs w tr' obs' w'. p (tr, obs, w) = (Inl Unpack_ValueError, tr', obs', w') \<longrightarrow>
        (\<exists>k\<in>U. k \<le> length gs \<and> obs' = obs @ map (\<lambda>g. (g, None)) (take k gs)))"

text \<open>The same for a method of the module, which has no unpacking.\<close>

definition logs :: "('e, ('g \<times> 'e option) list \<times> 'w, 'a) method_body \<Rightarrow> 'g list \<Rightarrow> bool" where
  "logs m gs \<longleftrightarrow>
     (\<forall>obs u a obs' u'. m (obs, u) = (Inr a, obs', u') \<longrightarrow> obs' = obs @ map (\<lambda>g. (g, None)) gs) \<and>
     (\<forall>obs u e obs' u'. m (obs, u) = (Inl e, obs', u') \<longrightarrow>
        (\<exists>k<length gs. obs' = obs @ map (\<lambda>g. (g, None)) (take k gs) @ [(gs ! k, Some e)]))"

text \<open>\<open>never_unpack_error p\<close>: the unpacking \<open>ValueError\<close> is never the outcome of \<open>p\<close>.\<close>

definition never_unpack_error :: "('e, 'w, 'a) prog \<Rightarrow> bool" where
  "never_unpack_error p \<longleftrightarrow> (\<forall>s s'. p s \<noteq> (Inl Unpack_ValueError, s'))"

text \<open>
  \<open>erases p' p\<close>: \<open>p'\<close> run on an observed framework ends as \<open>p\<close> does on the framework
  itself, with the same outcome, events and world. \<open>forgets m' m\<close> is the same for a
  method.
\<close>

definition erases ::
  "('e, 'o \<times> 'w, 'a) prog \<Rightarrow> ('e, 'w, 'a) prog \<Rightarrow> bool" where
  "erases p' p \<longleftrightarrow>
     (\<forall>tr obs w r tr' obs' w'. p' (tr, obs, w) = (r, tr', obs', w') \<longrightarrow> p (tr, w) = (r, tr', w'))"

definition forgets :: "('e, 'o \<times> 'w, 'a) method_body \<Rightarrow> ('e, 'w, 'a) method_body \<Rightarrow> bool" where
  "forgets m' m \<longleftrightarrow> (\<forall>obs u r obs' u'. m' (obs, u) = (r, obs', u') \<longrightarrow> m u = (r, u'))"

text \<open>
  \<open>passes_on m' m n\<close>, for a method \<open>m\<close> and the same method \<open>m'\<close> on observed
  operations: \<open>m\<close> ends as \<open>m'\<close> does; it ends with the exception \<open>e\<close> exactly when the
  last operation it called raised \<open>e\<close>; every operation called before the last one
  returned; at most \<open>n\<close> operations are called, and all \<open>n\<close> when the method returns.
\<close>

definition passes_on ::
  "('e, ('g \<times> 'e option) list \<times> 'w, 'a) method_body \<Rightarrow> ('e, 'w, 'a) method_body \<Rightarrow> nat \<Rightarrow> bool" where
  "passes_on m' m n \<longleftrightarrow>
     (\<forall>u. case m' ([], u) of (r, obs, u') \<Rightarrow>
        m u = (r, u') \<and>
        (\<forall>e. r = Inl e \<longleftrightarrow> obs \<noteq> [] \<and> snd (last obs) = Some e) \<and>
        list_all (\<lambda>entry. snd entry = None) (butlast obs) \<and>
        length obs \<le> n \<and>
        (\<forall>a. r = Inr a \<longrightarrow> length obs = n))"

text \<open>
  Operations of a module small enough to run its steps on: \<open>self(x)\<close> is \<open>forward\<close> of a
  model with all weights 0, in evaluation mode; the loss and the accuracy are always 0.
\<close>

definition stub_api :: "(error, unit, unit, real) module_api" where
  "stub_api =
     \<lparr>api_call = (\<lambda>x u.
         (forward ((MNISTModel_init (\<lambda>k j. 0) (\<lambda>j. 0) (\<lambda>k j. 0) (\<lambda>k. 0))\<lparr>training := False\<rparr>) (\<lambda>i j. True) x, u)),
      api_cross_entropy = (\<lambda>y_pred y u. (Inr 0, u)),
      api_metric_call = (\<lambda>p y_pred y u. (Inr 0, u)),
      api_metric_update = (\<lambda>p y_pred y u. (Inr (), u)),
      api_log = (\<lambda>name v prog_bar u. (Inr (), u)),
      api_log_metric = (\<lambda>name p prog_bar u. (Inr (), u)),
      api_parameters = (\<lambda>u. (Inr (), u)),
      api_Adam = (\<lambda>ps lr u. (Inr lr, u))\<rparr>"

subsection \<open>Batches\<close>

text \<open>
  Library operation: the iteration of \<open>torch.utils.data.BatchSampler\<close>, not defined in
  the notebook; after its documented behaviour:
  \<^verbatim>\<open>
    batch = []
    for idx in self.sampler:
        batch.append(idx)
        if len(batch) == self.batch_size:
            yield batch
            batch = []
    if len(batch) > 0 and not self.drop_last:
        yield batch
  \<close>
\<close>

fun BatchSampler_iter :: "nat \<Rightarrow> bool \<Rightarrow> nat list \<Rightarrow> nat list \<Rightarrow> nat list list" where
  "BatchSampler_iter bs dl batch [] = (if length batch > 0 \<and> \<not> dl then [batch] else [])"
| "BatchSampler_iter bs dl batch (idx # sampler) =
     (let batch' = batch @ [idx] in
      if length batch' = bs then batch' # BatchSampler_iter bs dl [] sampler
      else BatchSampler_iter bs dl batch' sampler)"

text \<open>
  The order in which a loader over \<open>n\<close> samples visits them: a fresh random permutation
  when \<open>shuffle\<close> is set (\<open>RandomSampler\<close>), the positions in order otherwise
  (\<open>SequentialSampler\<close>).
\<close>

definition sampler_order :: "bool \<Rightarrow> nat \<Rightarrow> nat list \<Rightarrow> nat list" where
  "sampler_order shuf n randperm = (if shuf then randperm else [0..<n])"

text \<open>
  One pass over a \<open>DataLoader\<close>: the batches, as lists of positions in its dataset. The
  library's defaults stand in for the arguments the notebook leaves out (\<open>batch_size=1\<close>,
  \<open>shuffle=False\<close>, \<open>drop_last=False\<close>); a batch size of 0 is refused with
  \<open>ValueError\<close>.
\<close>

definition DataLoader_iter :: "DataLoader_kwargs \<Rightarrow> nat \<Rightarrow> nat list \<Rightarrow> error + nat list list" where
  "DataLoader_iter kw n randperm =
     (let bs = (case batch_size kw of Some b \<Rightarrow> b | None \<Rightarrow> 1);
          shuf = (case shuffle kw of Some s \<Rightarrow> s | None \<Rightarrow> False);
          dl = (case drop_last kw of Some d \<Rightarrow> d | None \<Rightarrow> False)
      in if bs = 0 then Inl ValueError
         else Inr (BatchSampler_iter bs dl [] (sampler_order shuf n randperm)))"

subsection \<open>The training loop\<close>

text \<open>
  Library operation \<open>Trainer.fit\<close>, not defined in the notebook; after its documented
  behaviour, as far as the count of optimization steps goes. The trainer counts epochs
  (\<open>current_epoch\<close>) and optimizer steps (\<open>global_step\<close>); the file name
  \<open>epoch=9-step=8600.ckpt\<close> in the notebook's stored output shows both counters.
  \<open>training_step\<close> stands for what one batch does to the parameters (the module's
  \<open>training_step\<close>, the backward pass and the Adam update); it may raise.
  \<open>validation\<close> stands for the validation loop at the end of an epoch, which changes no
  parameter and may raise.
\<close>

record 'p fit_state =
  current_epoch :: nat
  global_step :: nat
  params :: 'p

fun training_epoch ::
  "('p \<Rightarrow> nat list \<Rightarrow> error + 'p) \<Rightarrow> nat list list \<Rightarrow> 'p fit_state \<Rightarrow> error option \<times> 'p fit_state" where
  "training_epoch training_step [] st = (None, st)"
| "training_epoch training_step (batch # batches) st =
     (case training_step (params st) batch of
        Inl e \<Rightarrow> (Some e, st)
      | Inr p' \<Rightarrow>
          training_epoch training_step batches (st\<lparr>params := p', global_step := global_step st + 1\<rparr>))"

definition run_epoch ::
  "(nat \<Rightarrow> error + nat list list) \<Rightarrow> ('p \<Rightarrow> nat list \<Rightarrow> error + 'p) \<Rightarrow> ('p \<Rightarrow> error option) \<Rightarrow>
   'p fit_state \<Rightarrow> error option \<times> 'p fit_state" where
  "run_epoch train_dataloader training_step validation st =
     (case train_dataloader (current_epoch st) of
        Inl e \<Rightarrow> (Some e, st)
      | Inr batches \<Rightarrow>
          (case training_epoch training_step batches st of
             (Some e, st') \<Rightarrow> (Some e, st')
           | (None, st') \<Rightarrow> (validation (params st'), st')))"

text \<open>An epoch leaves the epoch counter alone and takes one step per batch.\<close>

lemma training_epoch_steps:
  "training_epoch training_step batches st = (err, st') \<Longrightarrow>
   current_epoch st' = current_epoch st \<and>
   global_step st' \<le> global_step st + length batches \<and>
   (err = None \<longrightarrow> global_step st' = global_step st + length batches)"
proof (induction batches arbitrary: st)
  case Nil
  then show ?case by simp
next
  case (Cons batch batches)
  show ?case
  proof (cases "training_step (params st) batch")
    case (Inl e)
    with Cons.prems show ?thesis by auto
  next
    case (Inr p')
    with Cons.prems have
      "training_epoch training_step batches (st\<lparr>params := p', global_step := global_step st + 1\<rparr>) = (err, st')"
      by simp
    from Cons.IH[OF this] show ?thesis by auto
  qed
qed

lemma run_epoch_steps:
  assumes "run_epoch train_dataloader training_step validation st = (err, st')"
  shows "current_epoch st' = current_epoch st"
    and "\<And>batches. train_dataloader (current_epoch st) = Inr batches \<Longrightarrow>
           global_step st' \<le> global_step st + length batches \<and>
           (err = None \<longrightarrow> global_step st' = global_step st + length batches)"
    and "\<And>e. train_dataloader (current_epoch st) = Inl e \<Longrightarrow> st' = st \<and> err = Some e"
  using assms training_epoch_steps[of training_step _ st]
  by (auto simp: run_epoch_def split: sum.splits prod.splits option.splits)

text \<open>
  The loop over the epochs: it goes on while \<open>current_epoch < max_epochs\<close> and stops at
  the first exception.
\<close>

function fit_loop ::
  "nat \<Rightarrow> (nat \<Rightarrow> error + nat list list) \<Rightarrow> ('p \<Rightarrow> nat list \<Rightarrow> error + 'p) \<Rightarrow> ('p \<Rightarrow> error option) \<Rightarrow>
   'p fit_state \<Rightarrow> error option \<times> 'p fit_state" where
  "fit_loop max_ep train_dataloader training_step validation st =
     (if max_ep \<le> current_epoch st then (None, st)
      else case run_epoch train_dataloader training_step validation st of
             (Some e, st') \<Rightarrow> (Some e, st')
           | (None, st') \<Rightarrow>
               fit_loop max_ep train_dataloader training_step validation
                 (st'\<lparr>current_epoch := current_epoch st' + 1\<rparr>))"
  by pat_completeness auto
termination
  apply (relation "measure (\<lambda>(max_ep, train_dataloader, training_step, validation, st). max_ep - current_epoch st)")
   apply simp
  apply (auto dest: run_epoch_steps(1)[OF sym])
  done

declare fit_loop.simps [simp del]

text \<open>
  \<open>trainer.fit\<close> for a trainer made with the keyword arguments \<open>kw\<close>. Without
  \<open>max_epochs\<close> (and without \<open>max_steps\<close>, which the notebook does not pass) the library
  trains for 1000 epochs.
\<close>

definition fit ::
  "Trainer_kwargs \<Rightarrow> (nat \<Rightarrow> error + nat list list) \<Rightarrow> ('p \<Rightarrow> nat list \<Rightarrow> error + 'p) \<Rightarrow>
   ('p \<Rightarrow> error option) \<Rightarrow> 'p \<Rightarrow> error option \<times> 'p fit_state" where
  "fit kw train_dataloader training_step validation p0 =
     fit_loop (case max_epochs kw of Some m \<Rightarrow> m | None \<Rightarrow> 1000)
       train_dataloader training_step validation
       \<lparr>current_epoch = 0, global_step = 0, params = p0\<rparr>"

section \<open>Lemmas\<close>

subsection \<open>The forward pass\<close>

lemma dot_tabulated:
  "length v = n \<Longrightarrow> sum_list (map2 (*) v (map f [0..<n])) = (\<Sum>l<n. v ! l * f l)"
proof -
  assume len: "length v = n"
  have "map2 (*) v (map f [0..<n]) = map (\<lambda>l. v ! l * f l) [0..<n]"
    using len by (intro nth_equalityI) auto
  then show ?thesis
    by (simp add: interv_sum_list_conv_sum_set_nat atLeast0LessThan)
qed

lemma affine_Linear_init:
  assumes "length v = n_in"
  shows "affine (Linear_init n_in n_out w b) v = map (\<lambda>k. (\<Sum>l<n_in. v ! l * w k l) + b k) [0..<n_out]"
proof -
  have "zip (map (\<lambda>k. map (w k) [0..<n_in]) [0..<n_out]) (map b [0..<n_out])
      = map (\<lambda>k. (map (w k) [0..<n_in], b k)) [0..<n_out]"
    by (intro nth_equalityI) auto
  then show ?thesis
    using assms by (simp add: affine_def Linear_init_def dot_tabulated)
qed

lemma enumerate_map_upt:
  "map F (enumerate 0 xs) = map (\<lambda>i. F (i, xs ! i)) [0..<length xs]"
  by (intro nth_equalityI) (auto simp: nth_enumerate_eq)

lemma Linear_forward_layer_1:
  "Linear_forward (Linear_init n_in n_out w b) (flatten x) =
     (if \<forall>s \<in> set x. length (concat (concat s)) = n_in
      then Inr (map (\<lambda>s. map (\<lambda>k. (\<Sum>l<n_in. concat (concat s) ! l * w k l) + b k) [0..<n_out]) x)
      else Inl RuntimeError)"
proof (cases "\<forall>s \<in> set x. length (concat (concat s)) = n_in")
  case True
  then have "list_all (\<lambda>row. length row = n_in) (flatten x)"
    by (simp add: flatten_def list_all_iff)
  moreover have "map (affine (Linear_init n_in n_out w b)) (flatten x)
      = map (\<lambda>s. map (\<lambda>k. (\<Sum>l<n_in. concat (concat s) ! l * w k l) + b k) [0..<n_out]) x"
    using True by (simp add: flatten_def affine_Linear_init)
  ultimately show ?thesis
    using True by (simp add: Linear_forward_def Linear_init_def)
next
  case False
  then have "\<not> list_all (\<lambda>row. length row = n_in) (flatten x)"
    by (simp add: flatten_def list_all_iff)
  then show ?thesis
    using False by (simp add: Linear_forward_def Linear_init_def)
qed

lemma relu_Dropout_rows:
  "Dropout_forward p t keep (relu (map (\<lambda>s. map (g s) [0..<n]) x)) =
     map (\<lambda>i. map (\<lambda>j. if t then (if keep i j then max 0 (g (x ! i) j) / (1 - p) else 0)
                          else max 0 (g (x ! i) j)) [0..<n]) [0..<length x]"
proof (cases t)
  case True
  have "map (\<lambda>(i, row). map (\<lambda>(j, v). if keep i j then v / (1 - p) else 0) (enumerate 0 row))
          (enumerate 0 (relu (map (\<lambda>s. map (g s) [0..<n]) x)))
      = map (\<lambda>i. map (\<lambda>j. if keep i j then max 0 (g (x ! i) j) / (1 - p) else 0) [0..<n]) [0..<length x]"
    by (simp add: enumerate_map_upt relu_def)
  then show ?thesis
    using True by (simp add: Dropout_forward_def)
next
  case False
  have "relu (map (\<lambda>s. map (g s) [0..<n]) x)
      = map (\<lambda>i. map (\<lambda>j. max 0 (g (x ! i) j)) [0..<n]) [0..<length x]"
    by (intro nth_equalityI) (auto simp: relu_def)
  then show ?thesis
    using False by (simp add: Dropout_forward_def)
qed

lemma Linear_forward_layer_2:
  "Linear_forward (Linear_init n_in n_out w b) (map (\<lambda>i. map (r i) [0..<n_in]) rows) =
     Inr (map (\<lambda>i. map (\<lambda>k. (\<Sum>j<n_in. r i j * w k j) + b k) [0..<n_out]) rows)"
proof -
  have "affine (Linear_init n_in n_out w b) (map (r i) [0..<n_in])
      = map (\<lambda>k. (\<Sum>j<n_in. r i j * w k j) + b k) [0..<n_out]" for i
    by (simp add: affine_Linear_init)
  then show ?thesis
    by (simp add: Linear_forward_def list_all_iff Linear_init_def)
qed

lemma dropout_unit_alt:
  "dropout_unit t k h = (if t then (if k then h / (1 - 3 / 20) else 0) else h)"
  by (simp add: dropout_unit_def)

lemma upt_ten: "[0..<10] = [0, 1, 2, 3, 4, 5, 6, 7, 8, 9]"
  by code_simp

lemma forward_refines_spec:
  "forward ((MNISTModel_init w1 b1 w2 b2)\<lparr>training := t\<rparr>) keep x = forward_spec w1 b1 w2 b2 t keep x"
proof (cases "\<forall>s \<in> set x. length (concat (concat s)) = 784")
  case True
  then show ?thesis
    by (simp add: forward_def forward_spec_def MNISTModel_init_def Linear_forward_layer_1
        relu_Dropout_rows Linear_forward_layer_2 enumerate_map_upt class_score_def
        dropout_unit_alt hidden_unit_def del: upt_rec_numeral)
next
  case False
  then have "Linear_forward (Linear_init 784 512 w1 b1) (flatten x) = Inl RuntimeError"
    unfolding Linear_forward_layer_1 by (simp only: if_False)
  with False show ?thesis
    by (simp add: forward_def forward_spec_def MNISTModel_init_def)
qed

subsection \<open>The calls of the script\<close>







lemma seq_cases:
  assumes "seq p f s = (r, s'')"
  shows "(\<exists>err. p s = (Inl err, s'') \<and> r = Inl err) \<or> (\<exists>a s'. p s = (Inr a, s') \<and> f a s' = (r, s''))"
  using assms by (auto simp: seq_def split: prod.splits sum.splits)

lemma seq_Inr:
  assumes "seq p f (tr, w) = (Inr a, s'')"
  obtains b tr1 w1 where "p (tr, w) = (Inr b, tr1, w1)" and "f b (tr1, w1) = (Inr a, s'')"
  using seq_cases[OF assms] by auto

lemma seq_Inl:
  assumes "seq p f (tr, w) = (Inl err, s'')"
  obtains (first) "p (tr, w) = (Inl err, s'')"
  | (second) b tr1 w1 where "p (tr, w) = (Inr b, tr1, w1)" and "f b (tr1, w1) = (Inl err, s'')"
  using seq_cases[OF assms] by auto
















text \<open>The definitions that running the script on the small framework unfolds.\<close>

lemmas notebook_defs =
  notebook_def cell_imports_def cell_data_preparation_def cell_initialize_def MNISTModel_new_def
  cell_logging_def cell_training_def cell_evaluation_def seq_def invoke_def ret_def unpack2_def
  stub_framework_def split_lengths_def trainer_kwargs_def notebook_calls_def

subsection \<open>What the libraries see of a run\<close>

lemma invoke_observe:
  "invoke c (observe g op) (tr, obs, w) =
     (case op w of
        (Inl e, w') \<Rightarrow> (Inl (Framework e), tr @ [Raised c e], obs @ [(g, Some e)], w')
      | (Inr a, w') \<Rightarrow> (Inr a, tr @ [Returned c], obs @ [(g, None)], w'))"
  by (simp add: invoke_def observe_def split: prod.splits sum.splits)

lemma observes_Inr:
  "observes p gs U \<Longrightarrow> p (tr, obs, w) = (Inr a, tr', obs', w') \<Longrightarrow> obs' = obs @ map (\<lambda>g. (g, None)) gs"
  unfolding observes_def by (elim conjE allE[where x=tr] allE[where x=obs]) blast

lemma observes_Framework:
  "observes p gs U \<Longrightarrow> p (tr, obs, w) = (Inl (Framework e), tr', obs', w') \<Longrightarrow>
     \<exists>k<length gs. obs' = obs @ map (\<lambda>g. (g, None)) (take k gs) @ [(gs ! k, Some e)]"
  unfolding observes_def by (elim conjE allE[where x=tr] allE[where x=obs]) blast

lemma observes_Unpack:
  "observes p gs U \<Longrightarrow> p (tr, obs, w) = (Inl Unpack_ValueError, tr', obs', w') \<Longrightarrow>
     \<exists>k\<in>U. k \<le> length gs \<and> obs' = obs @ map (\<lambda>g. (g, None)) (take k gs)"
  unfolding observes_def by (elim conjE allE[where x=tr] allE[where x=obs]) blast

lemma observes_mono:
  assumes "observes p gs U" and "U \<subseteq> V"
  shows "observes p gs V"
  unfolding observes_def
proof (intro conjI allI impI)
  fix tr obs w a tr' obs' w'
  assume "p (tr, obs, w) = (Inr a, tr', obs', w')"
  with assms(1) show "obs' = obs @ map (\<lambda>g. (g, None)) gs"
    by (rule observes_Inr)
next
  fix tr obs w e tr' obs' w'
  assume "p (tr, obs, w) = (Inl (Framework e), tr', obs', w')"
  with assms(1) show "\<exists>k<length gs. obs' = obs @ map (\<lambda>g. (g, None)) (take k gs) @ [(gs ! k, Some e)]"
    by (rule observes_Framework)
next
  fix tr obs w tr' obs' w'
  assume "p (tr, obs, w) = (Inl Unpack_ValueError, tr', obs', w')"
  with assms(1) have "\<exists>k\<in>U. k \<le> length gs \<and> obs' = obs @ map (\<lambda>g. (g, None)) (take k gs)"
    by (rule observes_Unpack)
  with assms(2) show "\<exists>k\<in>V. k \<le> length gs \<and> obs' = obs @ map (\<lambda>g. (g, None)) (take k gs)"
    by blast
qed

lemma observes_invoke: "observes (invoke c (observe g op)) [g] {}"
  unfolding observes_def
  by (auto simp: invoke_observe split: prod.splits sum.splits)

lemma observes_ret: "observes (ret a) [] {}"
  by (simp add: observes_def ret_def)

lemma observes_seq:
  assumes p: "observes p gs U" and f: "\<And>a. observes (f a) hs V"
  shows "observes (seq p f) (gs @ hs) (U \<union> (\<lambda>k. length gs + k) ` V)"
  unfolding observes_def
proof (intro conjI allI impI)
  fix tr obs w a tr' obs' w'
  assume "seq p f (tr, obs, w) = (Inr a, tr', obs', w')"
  then obtain b tr1 s1 where 1: "p (tr, obs, w) = (Inr b, tr1, s1)" and 2: "f b (tr1, s1) = (Inr a, tr', obs', w')"
    by (rule seq_Inr)
  obtain obs1 w1 where s1: "s1 = (obs1, w1)"
    by (cases s1)
  have "obs1 = obs @ map (\<lambda>g. (g, None)) gs"
    using p 1[unfolded s1] by (rule observes_Inr)
  moreover have "obs' = obs1 @ map (\<lambda>g. (g, None)) hs"
    using f 2[unfolded s1] by (rule observes_Inr)
  ultimately show "obs' = obs @ map (\<lambda>g. (g, None)) (gs @ hs)"
    by simp
next
  fix tr obs w e tr' obs' w'
  assume "seq p f (tr, obs, w) = (Inl (Framework e), tr', obs', w')"
  then show "\<exists>k<length (gs @ hs). obs' = obs @ map (\<lambda>g. (g, None)) (take k (gs @ hs)) @ [((gs @ hs) ! k, Some e)]"
  proof (cases rule: seq_Inl)
    case first
    obtain k where "k < length gs" "obs' = obs @ map (\<lambda>g. (g, None)) (take k gs) @ [(gs ! k, Some e)]"
      using observes_Framework[OF p first] by blast
    then show ?thesis
      by (intro exI[where x=k]) (simp add: nth_append)
  next
    case (second b tr1 s1)
    obtain obs1 w1 where s1: "s1 = (obs1, w1)"
      by (cases s1)
    have obs1: "obs1 = obs @ map (\<lambda>g. (g, None)) gs"
      using p second(1)[unfolded s1] by (rule observes_Inr)
    obtain k where "k < length hs" "obs' = obs1 @ map (\<lambda>g. (g, None)) (take k hs) @ [(hs ! k, Some e)]"
      using observes_Framework[OF f second(2)[unfolded s1]] by blast
    with obs1 show ?thesis
      by (intro exI[where x="length gs + k"]) (simp add: nth_append)
  qed
next
  fix tr obs w tr' obs' w'
  assume "seq p f (tr, obs, w) = (Inl Unpack_ValueError, tr', obs', w')"
  then show "\<exists>k\<in>U \<union> (\<lambda>k. length gs + k) ` V. k \<le> length (gs @ hs) \<and>
               obs' = obs @ map (\<lambda>g. (g, None)) (take k (gs @ hs))"
  proof (cases rule: seq_Inl)
    case first
    obtain k where "k \<in> U" "k \<le> length gs" "obs' = obs @ map (\<lambda>g. (g, None)) (take k gs)"
      using observes_Unpack[OF p first] by blast
    then show ?thesis
      by (intro bexI[where x=k]) simp_all
  next
    case (second b tr1 s1)
    obtain obs1 w1 where s1: "s1 = (obs1, w1)"
      by (cases s1)
    have obs1: "obs1 = obs @ map (\<lambda>g. (g, None)) gs"
      using p second(1)[unfolded s1] by (rule observes_Inr)
    obtain k where "k \<in> V" "k \<le> length hs" "obs' = obs1 @ map (\<lambda>g. (g, None)) (take k hs)"
      using observes_Unpack[OF f second(2)[unfolded s1]] by blast
    with obs1 show ?thesis
      by (intro bexI[where x="length gs + k"]) simp_all
  qed
qed

lemma observes_seq_invoke:
  assumes "\<And>a. observes (f a) hs V"
  shows "observes (seq (invoke c (observe g op)) f) (g # hs) (Suc ` V)"
  using observes_seq[OF observes_invoke, of f hs V c g op] assms by simp

lemma observes_seq_unpack2:
  assumes "\<And>a b. observes (f a b) hs V"
  shows "observes (seq (unpack2 xs) (\<lambda>(a, b). f a b)) hs (insert 0 V)"
proof -
  have "observes (unpack2 xs) [] {0}"
    by (auto simp: observes_def unpack2_def split: list.splits)
  from observes_seq[OF this, of "\<lambda>(a, b). f a b" hs V] assms show ?thesis
    by (simp add: split_def)
qed

lemma observes_seq_none:
  assumes "observes p gs {}" and "\<And>a. observes (f a) hs {}"
  shows "observes (seq p f) (gs @ hs) {}"
  using observes_seq[OF assms(1), of f hs "{}"] assms(2) by simp

lemma observes_seq_fst:
  assumes "observes p gs U" and "\<And>a. observes (f a) hs {}"
  shows "observes (seq p f) (gs @ hs) U"
  using observes_seq[OF assms(1), of f hs "{}"] assms(2) by simp

lemma observes_seq_snd:
  assumes "observes p gs {}" and "\<And>a. observes (f a) hs V"
  shows "observes (seq p f) (gs @ hs) ((+) (length gs) ` V)"
  using observes_seq[OF assms(1), of f hs V] assms(2) by simp

lemma observed_simps:
  "fw_import (observed fw) = observe Got_import (fw_import fw)"
  "fw_Compose (observed fw) = observe Got_Compose (fw_Compose fw)"
  "fw_MNIST (observed fw) dir train_flag download tf =
     observe (Got_MNIST dir train_flag download) (fw_MNIST fw dir train_flag download tf)"
  "fw_random_split (observed fw) ds lengths = observe (Got_random_split lengths) (fw_random_split fw ds lengths)"
  "fw_DataLoader (observed fw) ds kw = observe (Got_DataLoader kw) (fw_DataLoader fw ds kw)"
  "fw_LightningModule_init (observed fw) = observe Got_LightningModule_init (fw_LightningModule_init fw)"
  "fw_Linear (observed fw) n_in n_out = observe (Got_Linear n_in n_out) (fw_Linear fw n_in n_out)"
  "fw_Dropout (observed fw) p = observe (Got_Dropout p) (fw_Dropout fw p)"
  "fw_Flatten (observed fw) = observe Got_Flatten (fw_Flatten fw)"
  "fw_Accuracy (observed fw) = observe Got_Accuracy (fw_Accuracy fw)"
  "fw_Trainer (observed fw) tkw = observe (Got_Trainer tkw) (fw_Trainer fw tkw)"
  "fw_reload_ext (observed fw) ext = observe (Got_reload_ext ext) (fw_reload_ext fw ext)"
  "fw_tensorboard (observed fw) logdir = observe (Got_tensorboard logdir) (fw_tensorboard fw logdir)"
  "fw_fit (observed fw) trainer model train_dl val_dl = observe Got_fit (fw_fit fw trainer model train_dl val_dl)"
  "fw_test (observed fw) trainer ckpt dl = observe (Got_test ckpt) (fw_test fw trainer ckpt dl)"
  by (simp_all add: observed_def)

lemma observes_cell_imports: "observes (cell_imports (observed fw)) [Got_import] {}"
  unfolding cell_imports_def observed_simps by (rule observes_invoke)

lemma observes_cell_data_preparation:
  "observes (cell_data_preparation (observed fw))
     [Got_Compose, Got_MNIST ''data'' True True, Got_MNIST ''data'' False True,
      Got_random_split split_lengths,
      Got_DataLoader training_loader_kwargs, Got_DataLoader validation_loader_kwargs,
      Got_DataLoader test_loader_kwargs] {4}"
proof -
  have "observes (cell_data_preparation (observed fw))
     [Got_Compose, Got_MNIST ''data'' True True, Got_MNIST ''data'' False True,
      Got_random_split split_lengths,
      Got_DataLoader training_loader_kwargs, Got_DataLoader validation_loader_kwargs,
      Got_DataLoader test_loader_kwargs]
     (Suc ` Suc ` Suc ` Suc ` insert 0 (Suc ` Suc ` Suc ` {}))"
    unfolding cell_data_preparation_def observed_simps
    by (rule observes_seq_invoke observes_seq_unpack2 observes_ret)+
  then show ?thesis
    by (simp add: eval_nat_numeral)
qed

lemma observes_MNISTModel_new:
  "observes (MNISTModel_new (observed fw))
     [Got_LightningModule_init, Got_Linear (1 * 28 * 28) 512, Got_Linear 512 10, Got_Dropout 0.15,
      Got_Flatten, Got_Accuracy, Got_Accuracy, Got_Accuracy] {}"
proof -
  have "observes (MNISTModel_new (observed fw))
     [Got_LightningModule_init, Got_Linear (1 * 28 * 28) 512, Got_Linear 512 10, Got_Dropout 0.15,
      Got_Flatten, Got_Accuracy, Got_Accuracy, Got_Accuracy]
     (Suc ` Suc ` Suc ` Suc ` Suc ` Suc ` Suc ` Suc ` {})"
    unfolding MNISTModel_new_def observed_simps
    by (rule observes_seq_invoke observes_ret)+
  then show ?thesis
    by simp
qed

lemma observes_cell_initialize:
  "observes (cell_initialize (observed fw))
     ([Got_LightningModule_init, Got_Linear (1 * 28 * 28) 512, Got_Linear 512 10, Got_Dropout 0.15,
       Got_Flatten, Got_Accuracy, Got_Accuracy, Got_Accuracy] @ [Got_Trainer trainer_kwargs]) {}"
  unfolding cell_initialize_def observed_simps
proof (rule observes_seq_none[OF observes_MNISTModel_new])
  fix mnist_model :: MNISTModel
  have "observes (seq (invoke call_Trainer (observe (Got_Trainer trainer_kwargs) (fw_Trainer fw trainer_kwargs)))
          (\<lambda>trainer. ret (mnist_model, trainer))) [Got_Trainer trainer_kwargs] (Suc ` {})"
    by (rule observes_seq_invoke) (rule observes_ret)
  then show "observes (seq (invoke call_Trainer (observe (Got_Trainer trainer_kwargs) (fw_Trainer fw trainer_kwargs)))
          (\<lambda>trainer. ret (mnist_model, trainer))) [Got_Trainer trainer_kwargs] {}"
    by simp
qed

lemma observes_cell_logging:
  "observes (cell_logging (observed fw)) [Got_reload_ext ''tensorboard'', Got_tensorboard ''lightning_logs/''] {}"
proof -
  have "observes (cell_logging (observed fw))
          [Got_reload_ext ''tensorboard'', Got_tensorboard ''lightning_logs/''] (Suc ` {})"
    unfolding cell_logging_def observed_simps
    by (rule observes_seq_invoke) (rule observes_invoke)
  then show ?thesis
    by simp
qed

lemma observes_cell_training:
  "observes (cell_training (observed fw) trainer mnist_model training_data validation_data) [Got_fit] {}"
  unfolding cell_training_def observed_simps by (rule observes_invoke)

lemma observes_cell_evaluation:
  "observes (cell_evaluation (observed fw) trainer test_data) [Got_test Best] {}"
  unfolding cell_evaluation_def observed_simps by (rule observes_invoke)

lemma observes_seq_pair:
  assumes "observes p gs {}" and "\<And>a b. observes (f a b) hs {}"
  shows "observes (seq p (\<lambda>(a, b). f a b)) (gs @ hs) {}"
  using assms by (intro observes_seq_none) (simp_all add: split_def)

lemma observes_seq_triple:
  assumes "observes p gs U" and "\<And>a b c. observes (f a b c) hs {}"
  shows "observes (seq p (\<lambda>(a, b, c). f a b c)) (gs @ hs) U"
  using assms by (intro observes_seq_fst) (simp_all add: split_def)

lemma observes_notebook: "observes (notebook (observed fw)) notebook_receives {5}"
proof -
  have "observes (notebook (observed fw))
     ([Got_import] @
      [Got_Compose, Got_MNIST ''data'' True True, Got_MNIST ''data'' False True,
       Got_random_split split_lengths,
       Got_DataLoader training_loader_kwargs, Got_DataLoader validation_loader_kwargs,
       Got_DataLoader test_loader_kwargs] @
      ([Got_LightningModule_init, Got_Linear (1 * 28 * 28) 512, Got_Linear 512 10, Got_Dropout 0.15,
        Got_Flatten, Got_Accuracy, Got_Accuracy, Got_Accuracy] @ [Got_Trainer trainer_kwargs]) @
      [Got_reload_ext ''tensorboard'', Got_tensorboard ''lightning_logs/''] @
      [Got_fit] @
      [Got_test Best])
     ((+) (length [Got_import]) ` {4})"
    unfolding notebook_def
    apply (rule observes_seq_snd[OF observes_cell_imports])
    apply (rule observes_seq_triple[OF observes_cell_data_preparation])
    apply (rule observes_seq_pair[OF observes_cell_initialize])
    apply (rule observes_seq_none[OF observes_cell_logging])
    apply (rule observes_seq_pair[OF observes_cell_training])
    apply (rule observes_cell_evaluation)
    done
  then show ?thesis
    by (simp add: notebook_receives_def split_lengths_def training_loader_kwargs_def
        validation_loader_kwargs_def test_loader_kwargs_def trainer_kwargs_def)
qed

lemma never_unpack_error_invoke: "never_unpack_error (invoke c op)"
  by (auto simp: never_unpack_error_def invoke_def split: prod.splits sum.splits)

lemma never_unpack_error_ret: "never_unpack_error (ret a)"
  by (simp add: never_unpack_error_def ret_def)

lemma never_unpack_error_seq:
  assumes "never_unpack_error p" and "\<And>a. never_unpack_error (f a)"
  shows "never_unpack_error (seq p f)"
  using assms by (auto simp: never_unpack_error_def seq_def split: prod.splits sum.splits)

lemma never_unpack_error_seq_invoke:
  assumes "\<And>a w w'. op w = (Inr a, w') \<Longrightarrow> never_unpack_error (f a)"
  shows "never_unpack_error (seq (invoke c op) f)"
  using assms by (auto simp: never_unpack_error_def seq_def invoke_def split: prod.splits sum.splits)

lemma never_unpack_error_seq_unpack2:
  assumes "length xs = 2" and "\<And>a b. never_unpack_error (f a b)"
  shows "never_unpack_error (seq (unpack2 xs) (\<lambda>(a, b). f a b))"
proof -
  from assms(1) obtain a b where "xs = [a, b]"
    by (cases xs; cases "tl xs"; cases "tl (tl xs)") auto
  with assms(2)[of a b] show ?thesis
    by (simp add: never_unpack_error_def seq_def unpack2_def)
qed

lemma never_unpack_error_pair:
  assumes "never_unpack_error p" and "\<And>a b. never_unpack_error (f a b)"
  shows "never_unpack_error (seq p (\<lambda>(a, b). f a b))"
  using assms by (intro never_unpack_error_seq) (simp_all add: split_def)

lemma never_unpack_error_triple:
  assumes "never_unpack_error p" and "\<And>a b c. never_unpack_error (f a b c)"
  shows "never_unpack_error (seq p (\<lambda>(a, b, c). f a b c))"
  using assms by (intro never_unpack_error_seq) (simp_all add: split_def)

lemma never_unpack_error_cell_data_preparation:
  assumes "\<forall>ds w parts w'. fw_random_split fw ds split_lengths w = (Inr parts, w') \<longrightarrow> length parts = 2"
  shows "never_unpack_error (cell_data_preparation fw)"
  unfolding cell_data_preparation_def
  apply (rule never_unpack_error_seq_invoke)
  apply (rule never_unpack_error_seq_invoke)
  apply (rule never_unpack_error_seq_invoke)
  apply (rule never_unpack_error_seq_invoke)
  apply (rule never_unpack_error_seq_unpack2)
   apply (use assms in blast)
  apply (rule never_unpack_error_seq_invoke)
  apply (rule never_unpack_error_seq_invoke)
  apply (rule never_unpack_error_seq_invoke)
  apply (rule never_unpack_error_ret)
  done

lemma never_unpack_error_MNISTModel_new: "never_unpack_error (MNISTModel_new fw)"
  unfolding MNISTModel_new_def
  by (rule never_unpack_error_seq_invoke never_unpack_error_ret)+

lemma never_unpack_error_notebook:
  assumes "\<forall>ds w parts w'. fw_random_split fw ds split_lengths w = (Inr parts, w') \<longrightarrow> length parts = 2"
  shows "never_unpack_error (notebook fw)"
  unfolding notebook_def cell_imports_def cell_initialize_def cell_logging_def cell_training_def
    cell_evaluation_def
  apply (rule never_unpack_error_seq_invoke)
  apply (rule never_unpack_error_triple[OF never_unpack_error_cell_data_preparation[OF assms]])
  apply (rule never_unpack_error_pair)
   apply (rule never_unpack_error_seq[OF never_unpack_error_MNISTModel_new])
   apply (rule never_unpack_error_seq_invoke)
   apply (rule never_unpack_error_ret)
  apply (rule never_unpack_error_seq)
   apply (rule never_unpack_error_seq_invoke)
   apply (rule never_unpack_error_invoke)
  apply (rule never_unpack_error_pair)
   apply (rule never_unpack_error_invoke)
  apply (rule never_unpack_error_invoke)
  done

lemma observed_random_split:
  assumes "\<forall>ds w parts w'. fw_random_split fw ds split_lengths w = (Inr parts, w') \<longrightarrow> length parts = 2"
  shows "\<forall>ds s parts s'. fw_random_split (observed fw) ds split_lengths s = (Inr parts, s') \<longrightarrow> length parts = 2"
  using assms by (auto simp: observed_simps observe_def split: prod.splits sum.splits)

lemma notebook_receives_facts:
  "length notebook_receives = 21"
  "filter configuration notebook_receives =
     [Got_DataLoader \<lparr>batch_size = Some 64, shuffle = Some True, num_workers = Some 4, drop_last = None\<rparr>,
      Got_DataLoader \<lparr>batch_size = Some 64, shuffle = Some False, num_workers = Some 4, drop_last = None\<rparr>,
      Got_DataLoader \<lparr>batch_size = Some 64, shuffle = Some False, num_workers = Some 4, drop_last = None\<rparr>,
      Got_Trainer \<lparr>max_epochs = Some 10, accelerator = Some ''gpu'', devices = None, strategy = None\<rparr>]"
  "Got_DataLoader kw \<in> set notebook_receives \<Longrightarrow>
     batch_size kw = Some 64 \<and> num_workers kw = Some 4 \<and> shuffle kw \<noteq> None \<and> drop_last kw = None"
  "Got_Trainer tkw \<in> set notebook_receives \<Longrightarrow>
     max_epochs tkw = Some 10 \<and> accelerator tkw = Some ''gpu'' \<and> devices tkw = None \<and> strategy tkw = None"
  by (auto simp: notebook_receives_def)

lemma notebook_observed:
  assumes run: "notebook (observed fw) ([], [], w) = (r, tr, obs, w')"
  shows "map fst obs = take (length obs) notebook_receives"
    and "list_all (\<lambda>entry. snd entry = None) (butlast obs)"
    and "\<And>e. r = Inl (Framework e) \<longleftrightarrow> obs \<noteq> [] \<and> snd (last obs) = Some e"
    and "\<And>res. r = Inr res \<Longrightarrow> obs = map (\<lambda>g. (g, None)) notebook_receives"
    and "r = Inl Unpack_ValueError \<Longrightarrow> obs = map (\<lambda>g. (g, None)) (take 5 notebook_receives)"
    and "length obs \<le> 21"
proof -
  let ?gs = "notebook_receives"
  let ?ok = "\<lambda>g::received. (g, None::'a option)"
  have shape: "(\<exists>k\<le>length ?gs. obs = map ?ok (take k ?gs) \<and> (\<forall>e. r \<noteq> Inl (Framework e)) \<and>
                  ((\<exists>a. r = Inr a) \<longrightarrow> k = length ?gs) \<and> (r = Inl Unpack_ValueError \<longrightarrow> k = 5))
             \<or> (\<exists>k<length ?gs. \<exists>e. obs = map ?ok (take k ?gs) @ [(?gs ! k, Some e)] \<and> r = Inl (Framework e))"
  proof (cases r)
    case (Inr a)
    with observes_Inr[OF observes_notebook, of fw "[]" "[]" w a tr obs w'] run show ?thesis
      by auto
  next
    case (Inl err)
    show ?thesis
    proof (cases err)
      case (Framework e)
      with Inl observes_Framework[OF observes_notebook, of fw "[]" "[]" w e tr obs w'] run show ?thesis
        by auto
    next
      case Unpack_ValueError
      with Inl observes_Unpack[OF observes_notebook, of fw "[]" "[]" w tr obs w'] run show ?thesis
        by auto
    qed
  qed
  have fst_ok: "map fst (map ?ok xs) = xs" for xs :: "received list"
    by (induction xs) simp_all
  have all_ok: "list_all (\<lambda>entry. snd entry = None) (map ?ok xs)" for xs :: "received list"
    by (induction xs) simp_all
  have last_ok: "xs \<noteq> [] \<Longrightarrow> snd (last (map ?ok xs)) = None" for xs :: "received list"
    by (simp add: last_map)
  from shape show "map fst obs = take (length obs) ?gs"
  proof (elim disjE exE conjE)
    fix k assume "k \<le> length ?gs" "obs = map ?ok (take k ?gs)"
    then show ?thesis by (simp add: fst_ok min_absorb2 del: map_map)
  next
    fix k e assume k: "k < length ?gs" and obs: "obs = map ?ok (take k ?gs) @ [(?gs ! k, Some e)]"
    then have "length obs = Suc k" by simp
    moreover have "map fst obs = take k ?gs @ [?gs ! k]"
      using obs by (simp add: fst_ok del: map_map)
    ultimately show ?thesis
      using k by (simp add: take_Suc_conv_app_nth)
  qed
  from shape show "list_all (\<lambda>entry. snd entry = None) (butlast obs)"
  proof (elim disjE exE conjE)
    fix k assume "obs = map ?ok (take k ?gs)"
    then have "butlast obs = map ?ok (butlast (take k ?gs))"
      by (simp add: map_butlast)
    then show ?thesis
      using all_ok by simp
  next
    fix k e assume "obs = map ?ok (take k ?gs) @ [(?gs ! k, Some e)]"
    then show ?thesis
      using all_ok by simp
  qed
  from shape show "\<And>e. r = Inl (Framework e) \<longleftrightarrow> obs \<noteq> [] \<and> snd (last obs) = Some e"
  proof (elim disjE exE conjE)
    fix e k assume k: "obs = map ?ok (take k ?gs)" and r: "\<forall>e. r \<noteq> Inl (Framework e)"
    have "snd (last obs) = None" if "obs \<noteq> []"
      using that last_ok[of "take k ?gs"] unfolding k by simp
    with r show "r = Inl (Framework e) \<longleftrightarrow> obs \<noteq> [] \<and> snd (last obs) = Some e"
      by auto
  next
    fix e k e' assume "obs = map ?ok (take k ?gs) @ [(?gs ! k, Some e')]" "r = Inl (Framework e')"
    then show "r = Inl (Framework e) \<longleftrightarrow> obs \<noteq> [] \<and> snd (last obs) = Some e"
      by auto
  qed
  from shape show "\<And>res. r = Inr res \<Longrightarrow> obs = map ?ok ?gs"
    by auto
  from shape show "r = Inl Unpack_ValueError \<Longrightarrow> obs = map ?ok (take 5 ?gs)"
    by auto
  from shape show "length obs \<le> 21"
    by (auto simp: notebook_receives_facts(1))
qed

lemma logs_Inr:
  "logs m gs \<Longrightarrow> m (obs, u) = (Inr a, obs', u') \<Longrightarrow> obs' = obs @ map (\<lambda>g. (g, None)) gs"
  unfolding logs_def by (elim conjE allE[where x=obs]) blast

lemma logs_Inl:
  "logs m gs \<Longrightarrow> m (obs, u) = (Inl e, obs', u') \<Longrightarrow>
     \<exists>k<length gs. obs' = obs @ map (\<lambda>g. (g, None)) (take k gs) @ [(gs ! k, Some e)]"
  unfolding logs_def by (elim conjE allE[where x=obs]) blast

lemma logs_observe: "logs (observe g op) [g]"
  by (auto simp: logs_def observe_def split: prod.splits sum.splits)

lemma logs_return: "logs (return a) []"
  by (simp add: logs_def return_def)

lemma and_then_cases:
  assumes "and_then m f s = (r, s'')"
  shows "(\<exists>e. m s = (Inl e, s'') \<and> r = Inl e) \<or> (\<exists>a s'. m s = (Inr a, s') \<and> f a s' = (r, s''))"
  using assms by (auto simp: and_then_def split: prod.splits sum.splits)

lemma logs_and_then:
  assumes m: "logs m gs" and f: "\<And>a. logs (f a) hs"
  shows "logs (and_then m f) (gs @ hs)"
  unfolding logs_def
proof (intro conjI allI impI)
  fix obs u a obs' u'
  assume "and_then m f (obs, u) = (Inr a, obs', u')"
  from and_then_cases[OF this] obtain b obs1 u1 where
    1: "m (obs, u) = (Inr b, obs1, u1)" and 2: "f b (obs1, u1) = (Inr a, obs', u')"
    by auto
  have "obs1 = obs @ map (\<lambda>g. (g, None)) gs"
    using m 1 by (rule logs_Inr)
  moreover have "obs' = obs1 @ map (\<lambda>g. (g, None)) hs"
    using f 2 by (rule logs_Inr)
  ultimately show "obs' = obs @ map (\<lambda>g. (g, None)) (gs @ hs)"
    by simp
next
  fix obs u e obs' u'
  assume "and_then m f (obs, u) = (Inl e, obs', u')"
  from and_then_cases[OF this] consider
    (first) "m (obs, u) = (Inl e, obs', u')"
    | (second) b obs1 u1 where "m (obs, u) = (Inr b, obs1, u1)" and "f b (obs1, u1) = (Inl e, obs', u')"
    by auto
  then show "\<exists>k<length (gs @ hs). obs' = obs @ map (\<lambda>g. (g, None)) (take k (gs @ hs)) @ [((gs @ hs) ! k, Some e)]"
  proof cases
    case first
    obtain k where "k < length gs" "obs' = obs @ map (\<lambda>g. (g, None)) (take k gs) @ [(gs ! k, Some e)]"
      using logs_Inl[OF m first] by blast
    then show ?thesis
      by (intro exI[where x=k]) (simp add: nth_append)
  next
    case second
    have obs1: "obs1 = obs @ map (\<lambda>g. (g, None)) gs"
      using m second(1) by (rule logs_Inr)
    obtain k where "k < length hs" "obs' = obs1 @ map (\<lambda>g. (g, None)) (take k hs) @ [(hs ! k, Some e)]"
      using logs_Inl[OF f second(2)] by blast
    with obs1 show ?thesis
      by (intro exI[where x="length gs + k"]) (simp add: nth_append)
  qed
qed

lemma logs_and_then_observe:
  assumes "\<And>a. logs (f a) hs"
  shows "logs (and_then (observe g op) f) (g # hs)"
  using logs_and_then[OF logs_observe, of f hs g op] assms by simp

lemma observed_api_simps:
  "api_call (observed_api api) x = observe Got_call (api_call api x)"
  "api_cross_entropy (observed_api api) y_pred y = observe Got_cross_entropy (api_cross_entropy api y_pred y)"
  "api_metric_call (observed_api api) p y_pred y = observe (Got_metric_call p) (api_metric_call api p y_pred y)"
  "api_metric_update (observed_api api) p y_pred y =
     observe (Got_metric_update p) (api_metric_update api p y_pred y)"
  "api_log (observed_api api) name v prog_bar = observe (Got_log name prog_bar) (api_log api name v prog_bar)"
  "api_log_metric (observed_api api) name p prog_bar =
     observe (Got_log_metric name p prog_bar) (api_log_metric api name p prog_bar)"
  "api_parameters (observed_api api) = observe Got_parameters (api_parameters api)"
  "api_Adam (observed_api api) ps lr = observe (Got_Adam lr) (api_Adam api ps lr)"
  by (simp_all add: observed_api_def)

lemma logs_training_step:
  "logs (MNISTModel_training_step (observed_api api) batch batch_nb)
     [Got_call, Got_cross_entropy, Got_metric_call Training,
      Got_log ''train_loss'' None, Got_log ''train_acc'' None]"
  unfolding MNISTModel_training_step_def observed_api_simps split_def
  by (rule logs_and_then_observe logs_return)+

lemma logs_validation_step:
  "logs (MNISTModel_validation_step (observed_api api) batch batch_nb)
     [Got_call, Got_cross_entropy, Got_metric_update Validation,
      Got_log ''val_loss'' (Some True), Got_log_metric ''val_acc'' Validation (Some True)]"
  unfolding MNISTModel_validation_step_def observed_api_simps split_def
  by (rule logs_and_then_observe logs_return)+

lemma logs_test_step:
  "logs (MNISTModel_test_step (observed_api api) batch batch_nb)
     [Got_call, Got_cross_entropy, Got_metric_call Test,
      Got_log ''test_loss'' None, Got_log ''test_acc'' None]"
  unfolding MNISTModel_test_step_def observed_api_simps split_def
  by (rule logs_and_then_observe logs_return)+

lemma logs_configure_optimizers:
  "logs (MNISTModel_configure_optimizers (observed_api api)) [Got_parameters, Got_Adam 0.0005]"
  unfolding MNISTModel_configure_optimizers_def observed_api_simps
  by (rule logs_and_then_observe) (rule logs_observe)

lemma logs_facts:
  assumes l: "logs m gs" and run: "m ([], u) = (r, obs, u')"
  shows "\<And>e. r = Inl e \<longleftrightarrow> obs \<noteq> [] \<and> snd (last obs) = Some e"
    and "list_all (\<lambda>entry. snd entry = None) (butlast obs)"
    and "map fst obs = take (length obs) gs"
    and "\<And>a. r = Inr a \<Longrightarrow> obs = map (\<lambda>g. (g, None)) gs"
proof -
  let ?ok = "\<lambda>g::'a. (g, None::'b option)"
  have shape: "(obs = map ?ok gs \<and> (\<exists>a. r = Inr a))
             \<or> (\<exists>k<length gs. \<exists>e. obs = map ?ok (take k gs) @ [(gs ! k, Some e)] \<and> r = Inl e)"
  proof (cases r)
    case (Inr a)
    with logs_Inr[OF l, of "[]" u a obs u'] run show ?thesis
      by auto
  next
    case (Inl e)
    with logs_Inl[OF l, of "[]" u e obs u'] run show ?thesis
      by auto
  qed
  have fst_ok: "map fst (map ?ok xs) = xs" for xs :: "'a list"
    by (induction xs) simp_all
  have all_ok: "list_all (\<lambda>entry. snd entry = None) (map ?ok xs)" for xs :: "'a list"
    by (induction xs) simp_all
  have last_ok: "xs \<noteq> [] \<Longrightarrow> snd (last (map ?ok xs)) = None" for xs :: "'a list"
    by (simp add: last_map)
  from shape show "\<And>e. r = Inl e \<longleftrightarrow> obs \<noteq> [] \<and> snd (last obs) = Some e"
  proof (elim disjE exE conjE)
    fix e a assume o: "obs = map ?ok gs" and r: "r = Inr a"
    have "snd (last obs) = None" if "obs \<noteq> []"
      using that last_ok[of gs] unfolding o by simp
    with r show "r = Inl e \<longleftrightarrow> obs \<noteq> [] \<and> snd (last obs) = Some e"
      by auto
  next
    fix e k e' assume "obs = map ?ok (take k gs) @ [(gs ! k, Some e')]" "r = Inl e'"
    then show "r = Inl e \<longleftrightarrow> obs \<noteq> [] \<and> snd (last obs) = Some e"
      by auto
  qed
  from shape show "list_all (\<lambda>entry. snd entry = None) (butlast obs)"
  proof (elim disjE exE conjE)
    assume "obs = map ?ok gs"
    then have "butlast obs = map ?ok (butlast gs)"
      by (simp add: map_butlast)
    then show ?thesis
      using all_ok by simp
  next
    fix k e assume "obs = map ?ok (take k gs) @ [(gs ! k, Some e)]"
    then show ?thesis
      using all_ok by simp
  qed
  from shape show "map fst obs = take (length obs) gs"
  proof (elim disjE exE conjE)
    assume "obs = map ?ok gs"
    then show ?thesis by (simp add: fst_ok del: map_map)
  next
    fix k e assume k: "k < length gs" and obs: "obs = map ?ok (take k gs) @ [(gs ! k, Some e)]"
    then have "length obs = Suc k" by simp
    moreover have "map fst obs = take k gs @ [gs ! k]"
      using obs by (simp add: fst_ok del: map_map)
    ultimately show ?thesis
      using k by (simp add: take_Suc_conv_app_nth)
  qed
  from shape show "\<And>a. r = Inr a \<Longrightarrow> obs = map ?ok gs"
    by auto
qed

lemma erases_invoke: "erases (invoke c (observe g op)) (invoke c op)"
  by (auto simp: erases_def invoke_def observe_def split: prod.splits sum.splits)

lemma erases_ret: "erases (ret a) (ret a)"
  by (simp add: erases_def ret_def)

lemma erases_unpack2: "erases (unpack2 xs) (unpack2 xs)"
  by (auto simp: erases_def unpack2_def split: list.splits)

lemma erases_seq:
  assumes "erases p' p" and "\<And>a. erases (f' a) (f a)"
  shows "erases (seq p' f') (seq p f)"
  unfolding erases_def
proof (intro allI impI)
  fix tr obs w r tr' obs' w'
  assume run: "seq p' f' (tr, obs, w) = (r, tr', obs', w')"
  from seq_cases[OF run] show "seq p f (tr, w) = (r, tr', w')"
  proof (elim disjE exE conjE)
    fix err assume "p' (tr, obs, w) = (Inl err, tr', obs', w')" "r = Inl err"
    with assms(1) have "p (tr, w) = (Inl err, tr', w')"
      unfolding erases_def by blast
    with \<open>r = Inl err\<close> show ?thesis
      by (simp add: seq_def)
  next
    fix a s1 assume 1: "p' (tr, obs, w) = (Inr a, s1)" and 2: "f' a s1 = (r, tr', obs', w')"
    obtain tr1 obs1 w1 where s1: "s1 = (tr1, obs1, w1)"
      by (cases s1)
    from assms(1) 1 have "p (tr, w) = (Inr a, tr1, w1)"
      unfolding erases_def s1 by blast
    moreover from assms(2)[of a] 2 have "f a (tr1, w1) = (r, tr', w')"
      unfolding erases_def s1 by blast
    ultimately show ?thesis
      by (simp add: seq_def)
  qed
qed

lemma erases_seq_pair:
  assumes "erases p' p" and "\<And>a b. erases (f' a b) (f a b)"
  shows "erases (seq p' (\<lambda>(a, b). f' a b)) (seq p (\<lambda>(a, b). f a b))"
  using assms by (intro erases_seq) (simp_all add: split_def)

lemma erases_seq_triple:
  assumes "erases p' p" and "\<And>a b c. erases (f' a b c) (f a b c)"
  shows "erases (seq p' (\<lambda>(a, b, c). f' a b c)) (seq p (\<lambda>(a, b, c). f a b c))"
  using assms by (intro erases_seq) (simp_all add: split_def)

lemma erases_cell_data_preparation:
  "erases (cell_data_preparation (observed fw)) (cell_data_preparation fw)"
  unfolding cell_data_preparation_def observed_simps
  by (rule erases_seq_pair erases_seq erases_invoke erases_unpack2 erases_ret)+

lemma erases_MNISTModel_new: "erases (MNISTModel_new (observed fw)) (MNISTModel_new fw)"
  unfolding MNISTModel_new_def observed_simps
  by (rule erases_seq erases_invoke erases_ret)+

lemma erases_notebook: "erases (notebook (observed fw)) (notebook fw)"
  unfolding notebook_def cell_imports_def cell_initialize_def cell_logging_def cell_training_def
    cell_evaluation_def observed_simps
  apply (rule erases_seq[OF erases_invoke])
  apply (rule erases_seq_triple[OF erases_cell_data_preparation])
  apply (rule erases_seq_pair)
   apply (rule erases_seq[OF erases_MNISTModel_new])
   apply (rule erases_seq[OF erases_invoke])
   apply (rule erases_ret)
  apply (rule erases_seq)
   apply (rule erases_seq[OF erases_invoke])
   apply (rule erases_invoke)
  apply (rule erases_seq_pair)
   apply (rule erases_invoke)
  apply (rule erases_invoke)
  done

lemma notebook_observed_erased:
  assumes "notebook (observed fw) (tr, obs, w) = (r, tr', obs', w')"
  shows "notebook fw (tr, w) = (r, tr', w')"
  using erases_notebook[of fw, unfolded erases_def, rule_format, OF assms] .

lemma forgets_observe: "forgets (observe g op) op"
  by (auto simp: forgets_def observe_def split: prod.splits sum.splits)

lemma forgets_return: "forgets (return a) (return a)"
  by (simp add: forgets_def return_def)

lemma forgets_and_then:
  assumes "forgets m' m" and "\<And>a. forgets (f' a) (f a)"
  shows "forgets (and_then m' f') (and_then m f)"
  unfolding forgets_def
proof (intro allI impI)
  fix obs u r obs' u'
  assume run: "and_then m' f' (obs, u) = (r, obs', u')"
  from and_then_cases[OF run] show "and_then m f u = (r, u')"
  proof (elim disjE exE conjE)
    fix e assume "m' (obs, u) = (Inl e, obs', u')" "r = Inl e"
    with assms(1) have "m u = (Inl e, u')"
      unfolding forgets_def by blast
    with \<open>r = Inl e\<close> show ?thesis
      by (simp add: and_then_def)
  next
    fix a s1 assume 1: "m' (obs, u) = (Inr a, s1)" and 2: "f' a s1 = (r, obs', u')"
    obtain obs1 u1 where s1: "s1 = (obs1, u1)"
      by (cases s1)
    from assms(1) 1 have "m u = (Inr a, u1)"
      unfolding forgets_def s1 by blast
    moreover from assms(2)[of a] 2 have "f a u1 = (r, u')"
      unfolding forgets_def s1 by blast
    ultimately show ?thesis
      by (simp add: and_then_def)
  qed
qed

lemma forgets_training_step:
  "forgets (MNISTModel_training_step (observed_api api) batch batch_nb) (MNISTModel_training_step api batch batch_nb)"
  unfolding MNISTModel_training_step_def observed_api_simps split_def
  by (rule forgets_and_then forgets_observe forgets_return)+

lemma forgets_validation_step:
  "forgets (MNISTModel_validation_step (observed_api api) batch batch_nb)
     (MNISTModel_validation_step api batch batch_nb)"
  unfolding MNISTModel_validation_step_def observed_api_simps split_def
  by (rule forgets_and_then forgets_observe forgets_return)+

lemma forgets_test_step:
  "forgets (MNISTModel_test_step (observed_api api) batch batch_nb) (MNISTModel_test_step api batch batch_nb)"
  unfolding MNISTModel_test_step_def observed_api_simps split_def
  by (rule forgets_and_then forgets_observe forgets_return)+

lemma forgets_configure_optimizers:
  "forgets (MNISTModel_configure_optimizers (observed_api api)) (MNISTModel_configure_optimizers api)"
  unfolding MNISTModel_configure_optimizers_def observed_api_simps
  by (rule forgets_and_then forgets_observe)+

lemma passes_onI:
  assumes l: "logs m' gs" and f: "forgets m' m" and n: "length gs = n"
  shows "passes_on m' m n"
  unfolding passes_on_def
proof
  fix u
  obtain r obs u' where run: "m' ([], u) = (r, obs, u')"
    by (metis prod_cases3)
  note facts = logs_facts[OF l run]
  have "m u = (r, u')"
    using f run unfolding forgets_def by blast
  moreover have "length (map fst obs) \<le> n"
    unfolding facts(3) using n by simp
  moreover have "\<forall>a. r = Inr a \<longrightarrow> length obs = n"
    using facts(4) n by auto
  ultimately show "case m' ([], u) of (r, obs, u') \<Rightarrow>
        m u = (r, u') \<and>
        (\<forall>e. r = Inl e \<longleftrightarrow> obs \<noteq> [] \<and> snd (last obs) = Some e) \<and>
        list_all (\<lambda>entry. snd entry = None) (butlast obs) \<and>
        length obs \<le> n \<and>
        (\<forall>a. r = Inr a \<longrightarrow> length obs = n)"
    using facts(1,2) by (simp add: run)
qed

lemma forward_raises:
  "forward model keep x = Inl e \<longleftrightarrow>
     Linear_forward (layer_1 model) (flatten x) = Inl e \<or>
     (\<exists>h. Linear_forward (layer_1 model) (flatten x) = Inr h \<and>
          Linear_forward (layer_2 model) (Dropout_forward (dropout model) (training model) keep (relu h)) = Inl e)"
  by (auto simp: forward_def Let_def split: sum.splits)

lemma notebook_ignores_other_arguments:
  "notebook (fw\<lparr>fw_DataLoader := (\<lambda>ds kw.
        if batch_size kw = Some 64 \<and> num_workers kw = Some 4 \<and> shuffle kw \<noteq> None \<and> drop_last kw = None
        then fw_DataLoader fw ds kw else other_loader ds kw),
      fw_Trainer := (\<lambda>kw.
        if max_epochs kw = Some 10 \<and> accelerator kw = Some ''gpu'' \<and> devices kw = None \<and> strategy kw = None
        then fw_Trainer fw kw else other_trainer kw)\<rparr>) = notebook fw"
  by (simp add: notebook_def cell_imports_def cell_data_preparation_def cell_initialize_def
      MNISTModel_new_def cell_logging_def cell_training_def cell_evaluation_def
      training_loader_kwargs_def validation_loader_kwargs_def test_loader_kwargs_def trainer_kwargs_def
      del: not_None_eq)

text \<open>The definitions that running an observed framework unfolds.\<close>

lemmas observed_defs = observed_def observe_def notebook_receives_def
  training_loader_kwargs_def validation_loader_kwargs_def test_loader_kwargs_def

subsection \<open>Batches\<close>

lemma div_add_self_Suc: "0 < (b::nat) \<Longrightarrow> (b + k) div b = Suc (k div b)"
  by simp

lemma concat_BatchSampler_iter:
  "concat (BatchSampler_iter bs False batch xs) = batch @ xs"
  by (induction xs arbitrary: batch) (auto simp: Let_def)

lemma length_BatchSampler_iter:
  "length batch < bs \<Longrightarrow>
   length (BatchSampler_iter bs False batch xs) = (length batch + length xs + bs - 1) div bs"
proof (induction xs arbitrary: batch)
  case Nil
  then show ?case by (cases batch) (auto simp: div_eq_0_iff)
next
  case (Cons x xs)
  show ?case
  proof (cases "Suc (length batch) = bs")
    case True
    then have bs: "bs = Suc (length batch)" by simp
    have "(length batch + Suc (length xs) + bs - 1) div bs = (bs + (length xs + bs - 1)) div bs"
      unfolding bs by (simp add: ac_simps)
    also have "\<dots> = Suc ((length xs + bs - 1) div bs)"
      using Cons.prems by (intro div_add_self_Suc) simp
    finally show ?thesis
      using True Cons.IH[of "[]"] Cons.prems by (simp add: Let_def)
  next
    case False
    with Cons.prems have "length (batch @ [x]) < bs" by simp
    from Cons.IH[OF this] False show ?thesis by (simp add: Let_def)
  qed
qed

lemma full_batches_BatchSampler_iter:
  "length batch < bs \<Longrightarrow> Suc i < length (BatchSampler_iter bs False batch xs) \<Longrightarrow>
   length (BatchSampler_iter bs False batch xs ! i) = bs"
proof (induction xs arbitrary: batch i)
  case Nil
  then show ?case by (simp split: if_splits)
next
  case (Cons x xs)
  show ?case
  proof (cases "Suc (length batch) = bs")
    case True
    show ?thesis
    proof (cases i)
      case 0
      with True show ?thesis by (simp add: Let_def)
    next
      case (Suc j)
      with True Cons.prems Cons.IH[of "[]" j] show ?thesis
        by (simp add: Let_def)
    qed
  next
    case False
    with Cons.prems have "length (batch @ [x]) < bs" by simp
    from Cons.IH[OF this, of i] False Cons.prems(2) show ?thesis by (simp add: Let_def)
  qed
qed

lemma batch_bounds_BatchSampler_iter:
  "length batch < bs \<Longrightarrow> b \<in> set (BatchSampler_iter bs False batch xs) \<Longrightarrow>
   0 < length b \<and> length b \<le> bs"
proof (induction xs arbitrary: batch)
  case Nil
  then show ?case by (auto split: if_splits)
next
  case (Cons x xs)
  show ?case
  proof (cases "Suc (length batch) = bs")
    case True
    with Cons.prems Cons.IH[of "[]"] show ?thesis
      by (auto simp: Let_def)
  next
    case False
    with Cons.prems have "length (batch @ [x]) < bs" by simp
    from Cons.IH[OF this] False Cons.prems(2) show ?thesis by (simp add: Let_def)
  qed
qed


lemma last_batch_BatchSampler_iter:
  assumes "0 < bs" and "xs \<noteq> []"
  shows "length (last (BatchSampler_iter bs False [] xs))
       = length xs - bs * (length (BatchSampler_iter bs False [] xs) - 1)"
proof -
  let ?L = "BatchSampler_iter bs False [] xs"
  have "concat ?L = xs"
    by (simp add: concat_BatchSampler_iter)
  with assms(2) have ne: "?L \<noteq> []"
    by auto
  have full: "map length (butlast ?L) = replicate (length ?L - 1) bs"
  proof (intro nth_equalityI)
    show "length (map length (butlast ?L)) = length (replicate (length ?L - 1) bs)"
      by simp
  next
    fix i
    assume "i < length (map length (butlast ?L))"
    then have i: "Suc i < length ?L"
      by simp
    then have "length (?L ! i) = bs"
      using assms(1) by (intro full_batches_BatchSampler_iter) simp_all
    with i show "map length (butlast ?L) ! i = replicate (length ?L - 1) bs ! i"
      by (simp add: nth_butlast)
  qed
  have "length xs = length (concat ?L)"
    by (simp add: concat_BatchSampler_iter)
  also have "\<dots> = sum_list (map length (butlast ?L @ [last ?L]))"
    using ne by (simp add: length_concat)
  also have "\<dots> = (length ?L - 1) * bs + length (last ?L)"
    by (simp add: full sum_list_replicate)
  finally show ?thesis
    by (simp add: mult.commute)
qed

subsection \<open>The training loop\<close>

lemma fit_loop_steps:
  assumes "\<forall>epoch batches. epoch < max_ep \<longrightarrow> train_dataloader epoch = Inr batches \<longrightarrow> length batches = k"
    and "current_epoch st \<le> max_ep"
    and "fit_loop max_ep train_dataloader training_step validation st = (err, st')"
  shows "global_step st' \<le> global_step st + (max_ep - current_epoch st) * k \<and>
         current_epoch st' \<le> max_ep \<and>
         (err = None \<longrightarrow> global_step st' = global_step st + (max_ep - current_epoch st) * k \<and>
                         current_epoch st' = max_ep)"
  using assms
proof (induction max_ep train_dataloader training_step validation st rule: fit_loop.induct)
  case (1 max_ep train_dataloader training_step validation st)
  show ?case
  proof (cases "max_ep \<le> current_epoch st")
    case True
    with "1.prems" show ?thesis by (simp add: fit_loop.simps)
  next
    case False
    obtain err1 st1 where r: "run_epoch train_dataloader training_step validation st = (err1, st1)"
      by (cases "run_epoch train_dataloader training_step validation st")
    have ep: "current_epoch st1 = current_epoch st"
      using r by (rule run_epoch_steps(1))
    have more: "(max_ep - current_epoch st) * k = k + (max_ep - Suc (current_epoch st)) * k"
    proof -
      have "max_ep - current_epoch st = Suc (max_ep - Suc (current_epoch st))"
        using False by simp
      then show ?thesis
        by simp
    qed
    show ?thesis
    proof (cases "train_dataloader (current_epoch st)")
      case (Inl e)
      from run_epoch_steps(3)[OF r Inl] have "st1 = st" "err1 = Some e"
        by simp_all
      with r False "1.prems"(3) have "err = Some e" "st' = st"
        by (simp_all add: fit_loop.simps)
      with "1.prems"(2) show ?thesis
        by simp
    next
      case (Inr batches)
      have "current_epoch st < max_ep"
        using False by simp
      then have len: "length batches = k"
        using Inr "1.prems"(1) by blast
      from run_epoch_steps(2)[OF r Inr] len
      have gs: "global_step st1 \<le> global_step st + k"
        and gs': "err1 = None \<longrightarrow> global_step st1 = global_step st + k"
        by simp_all
      show ?thesis
      proof (cases err1)
        case (Some e)
        with r False "1.prems"(3) have "err = Some e" "st' = st1"
          by (simp_all add: fit_loop.simps)
        with gs ep "1.prems"(2) more show ?thesis
          by simp
      next
        case None
        let ?st2 = "st1\<lparr>current_epoch := current_epoch st1 + 1\<rparr>"
        from None r False "1.prems"(3)
        have rec: "fit_loop max_ep train_dataloader training_step validation ?st2 = (err, st')"
          by (simp add: fit_loop.simps[of max_ep train_dataloader training_step validation st])
        have "current_epoch ?st2 \<le> max_ep"
          using ep False by simp
        from "1.IH"[OF False r[symmetric] None "1.prems"(1) this rec]
        show ?thesis
          using gs' None ep more by simp
      qed
    qed
  qed
qed

lemma DataLoader_iter_notebook:
  assumes "batch_size kw = Some 64" and "drop_last kw = None"
    and "length (sampler_order (case shuffle kw of Some s \<Rightarrow> s | None \<Rightarrow> False) n randperm) = n"
  shows "\<exists>batches. DataLoader_iter kw n randperm = Inr batches \<and>
           concat batches = sampler_order (case shuffle kw of Some s \<Rightarrow> s | None \<Rightarrow> False) n randperm \<and>
           length batches = (n + 63) div 64 \<and>
           (\<forall>b \<in> set batches. 0 < length b \<and> length b \<le> 64) \<and>
           (\<forall>i. Suc i < length batches \<longrightarrow> length (batches ! i) = 64) \<and>
           (0 < n \<longrightarrow> length (last batches) = n - 64 * (length batches - 1))"
proof -
  let ?xs = "sampler_order (case shuffle kw of Some s \<Rightarrow> s | None \<Rightarrow> False) n randperm"
  let ?L = "BatchSampler_iter 64 False [] ?xs"
  have 1: "DataLoader_iter kw n randperm = Inr ?L"
    using assms(1,2) by (simp add: DataLoader_iter_def)
  have 2: "concat ?L = ?xs"
    by (simp add: concat_BatchSampler_iter)
  have 3: "length ?L = (n + 63) div 64"
    using length_BatchSampler_iter[of "[]" 64 ?xs] assms(3) by simp
  have 4: "\<forall>b \<in> set ?L. 0 < length b \<and> length b \<le> 64"
    using batch_bounds_BatchSampler_iter[of "[]" 64 _ ?xs] by simp
  have 5: "\<forall>i. Suc i < length ?L \<longrightarrow> length (?L ! i) = 64"
    using full_batches_BatchSampler_iter[of "[]" 64 _ ?xs] by simp
  have 6: "0 < n \<longrightarrow> length (last ?L) = n - 64 * (length ?L - 1)"
  proof
    assume "0 < n"
    with assms(3) have "?xs \<noteq> []"
      by auto
    with last_batch_BatchSampler_iter[of 64 ?xs] assms(3)
    show "length (last ?L) = n - 64 * (length ?L - 1)"
      by simp
  qed
  from 1 2 3 4 5 6 show ?thesis
    by blast
qed

lemma training_epoch_never_fails:
  assumes "\<forall>p batch. \<exists>p'. training_step p batch = Inr p'"
  shows "fst (training_epoch training_step batches st) = None"
proof (induction batches arbitrary: st)
  case Nil
  show ?case by simp
next
  case (Cons batch batches)
  from assms obtain p' where "training_step (params st) batch = Inr p'"
    by blast
  with Cons.IH show ?case
    by simp
qed

lemma fit_loop_never_fails:
  assumes "\<forall>p batch. \<exists>p'. training_step p batch = Inr p'"
    and "\<forall>p. validation p = None"
    and "\<forall>epoch. \<exists>batches. train_dataloader epoch = Inr batches"
  shows "fst (fit_loop max_ep train_dataloader training_step validation st) = None"
  using assms
proof (induction max_ep train_dataloader training_step validation st rule: fit_loop.induct)
  case (1 max_ep train_dataloader training_step validation st)
  show ?case
  proof (cases "max_ep \<le> current_epoch st")
    case True
    then show ?thesis
      by (simp add: fit_loop.simps)
  next
    case False
    obtain batches where b: "train_dataloader (current_epoch st) = Inr batches"
      using "1.prems"(3) by blast
    obtain err1 st1 where t: "training_epoch training_step batches st = (err1, st1)"
      by (cases "training_epoch training_step batches st")
    have "err1 = None"
      using training_epoch_never_fails[OF "1.prems"(1), of batches st] t by simp
    with b t "1.prems"(2) have r: "run_epoch train_dataloader training_step validation st = (None, st1)"
      by (simp add: run_epoch_def)
    from "1.IH"[OF False r[symmetric] refl "1.prems"] r False show ?thesis
      by (simp add: fit_loop.simps[of max_ep train_dataloader training_step validation st])
  qed
qed

lemma permutation_length:
  assumes "distinct xs" and "set xs = {0..<n}"
  shows "length xs = n"
  using assms distinct_card[of xs] by simp

section \<open>The claims\<close>

subsection \<open>C1: the forward pass\<close>

text \<open>
  Claim C1. For every input batch \<open>x\<close>, \<open>MNISTModel.forward(x)\<close> is exactly the
  composition: flatten \<open>x\<close>, apply the first dense layer from \<open>1*28*28 = 784\<close> inputs to 512
  outputs, apply ReLU, apply dropout with rate 0.15, apply the second dense layer from 512
  inputs to 10 outputs, and return the result: ten class scores per sample, with no
  softmax or other normalization.

  The theorem holds for all weights and biases of the two layers, in training mode
  (\<open>t = True\<close>) and in evaluation mode, for every dropout mask and every batch. A batch
  with a sample of any other size than 784 entries raises \<open>RuntimeError\<close> on both sides.
\<close>

theorem forward_two_dense_layers:
  "forward ((MNISTModel_init w1 b1 w2 b2)\<lparr>training := t\<rparr>) keep x = forward_spec w1 b1 w2 b2 t keep x"
  by (rule forward_refines_spec)

text \<open>
  With all weights 0 and the output biases 2, one picture gives ten scores of 2: they add
  up to 20, not to 1.
\<close>

theorem forward_two_dense_layers_witness:
  "forward ((MNISTModel_init (\<lambda>k j. 0) (\<lambda>j. 0) (\<lambda>k j. 0) (\<lambda>k. 2))\<lparr>training := True\<rparr>) (\<lambda>i j. True)
     [[replicate 28 (replicate 28 1)]] = Inr [[2, 2, 2, 2, 2, 2, 2, 2, 2, 2]]"
  using forward_two_dense_layers [where ?w1.0 = "\<lambda>k j. 0" and ?b1.0 = "\<lambda>j. 0" and ?w2.0 = "\<lambda>k j. 0"
      and ?b2.0 = "\<lambda>k. 2" and t = True and keep = "\<lambda>i j. True"
      and x = "[[replicate 28 (replicate 28 1)]]"]
    upt_ten
  by (simp add: forward_spec_def class_score_def length_concat sum_list_replicate)

subsection \<open>C4: the order of the steps\<close>



subsection \<open>C6: concurrency and batching settings\<close>

text \<open>
  Claim C6. The repository authors no explicit concurrency coordination,
  synchronization, batching policy or cancellation handling of its own, and execution is
  delegated to the framework's default single-process, optionally single-accelerator
  strategy: for every configuration value affecting concurrency or batching (worker
  count, batch size, accelerator), the notebook leaves the framework default in place.

  As stated the claim fails: the notebook passes \<open>batch_size=64\<close> and \<open>num_workers=4\<close>
  to every \<open>DataLoader\<close> and \<open>accelerator='gpu'\<close> to the \<open>Trainer\<close>.
\<close>

theorem notebook_overrides_defaults:
  "\<not> (batch_size training_loader_kwargs = None \<and> num_workers training_loader_kwargs = None \<and>
      accelerator trainer_kwargs = None)"
  by (simp add: training_loader_kwargs_def)

text \<open>
  Claim C6, amended. The notebook does not leave the configuration values affecting
  concurrency and batching at the framework defaults: every \<open>DataLoader\<close> it creates is
  given \<open>batch_size=64\<close>, \<open>num_workers=4\<close> and a \<open>shuffle\<close> flag (\<open>True\<close> for the first
  loader, the training one, \<open>False\<close> for the validation and test loaders), and its
  \<open>Trainer\<close> is given \<open>max_epochs=10\<close> and \<open>accelerator='gpu'\<close>. Of the settings
  considered, only \<open>drop_last\<close>, \<open>devices\<close> and \<open>strategy\<close> are not passed and so left
  to the framework defaults.

  For every framework: what \<open>DataLoader\<close> and \<open>Trainer\<close> would do with any other
  arguments makes no difference to the notebook, which never calls them so; the run on
  the observed framework is the run on the framework itself; every loader and every
  trainer that the observed framework is asked for comes with these arguments; and in a
  run that returns it has been asked for exactly three loaders and then one trainer, with
  the arguments listed.
\<close>

theorem notebook_concurrency_settings:
  "notebook (fw\<lparr>fw_DataLoader := (\<lambda>ds kw.
        if batch_size kw = Some 64 \<and> num_workers kw = Some 4 \<and> shuffle kw \<noteq> None \<and> drop_last kw = None
        then fw_DataLoader fw ds kw else other_loader ds kw),
      fw_Trainer := (\<lambda>kw.
        if max_epochs kw = Some 10 \<and> accelerator kw = Some ''gpu'' \<and> devices kw = None \<and> strategy kw = None
        then fw_Trainer fw kw else other_trainer kw)\<rparr>) = notebook fw \<and>
   (case notebook (observed fw) ([], [], w) of (r, tr, obs, w') \<Rightarrow>
      notebook fw ([], w) = (r, tr, w') \<and>
      (\<forall>kw. Got_DataLoader kw \<in> set (map fst obs) \<longrightarrow>
         batch_size kw = Some 64 \<and> num_workers kw = Some 4 \<and> shuffle kw \<noteq> None \<and> drop_last kw = None) \<and>
      (\<forall>kw. Got_Trainer kw \<in> set (map fst obs) \<longrightarrow>
         max_epochs kw = Some 10 \<and> accelerator kw = Some ''gpu'' \<and> devices kw = None \<and> strategy kw = None) \<and>
      (\<forall>res. r = Inr res \<longrightarrow>
         filter configuration (map fst obs) =
           [Got_DataLoader \<lparr>batch_size = Some 64, shuffle = Some True, num_workers = Some 4, drop_last = None\<rparr>,
            Got_DataLoader \<lparr>batch_size = Some 64, shuffle = Some False, num_workers = Some 4, drop_last = None\<rparr>,
            Got_DataLoader \<lparr>batch_size = Some 64, shuffle = Some False, num_workers = Some 4, drop_last = None\<rparr>,
            Got_Trainer \<lparr>max_epochs = Some 10, accelerator = Some ''gpu'', devices = None, strategy = None\<rparr>]))"
proof -
  obtain r tr obs w' where run: "notebook (observed fw) ([], [], w) = (r, tr, obs, w')"
    by (metis prod_cases4)
  note o = notebook_observed[OF run]
  have sub: "set (map fst obs) \<subseteq> set notebook_receives"
    unfolding o(1) by (rule set_take_subset)
  have 1: "\<forall>kw. Got_DataLoader kw \<in> set (map fst obs) \<longrightarrow>
         batch_size kw = Some 64 \<and> num_workers kw = Some 4 \<and> shuffle kw \<noteq> None \<and> drop_last kw = None"
    using sub notebook_receives_facts(3) by blast
  have 2: "\<forall>kw. Got_Trainer kw \<in> set (map fst obs) \<longrightarrow>
         max_epochs kw = Some 10 \<and> accelerator kw = Some ''gpu'' \<and> devices kw = None \<and> strategy kw = None"
    using sub notebook_receives_facts(4) by blast
  have 3: "\<forall>res. r = Inr res \<longrightarrow> filter configuration (map fst obs) = filter configuration notebook_receives"
  proof (intro allI impI)
    fix res assume "r = Inr res"
    then have "obs = map (\<lambda>g. (g, None)) notebook_receives"
      by (rule o(4))
    then have "map fst obs = notebook_receives"
      by (simp add: comp_def)
    then show "filter configuration (map fst obs) = filter configuration notebook_receives"
      by simp
  qed
  have "case notebook (observed fw) ([], [], w) of (r, tr, obs, w') \<Rightarrow>
      notebook fw ([], w) = (r, tr, w') \<and>
      (\<forall>kw. Got_DataLoader kw \<in> set (map fst obs) \<longrightarrow>
         batch_size kw = Some 64 \<and> num_workers kw = Some 4 \<and> shuffle kw \<noteq> None \<and> drop_last kw = None) \<and>
      (\<forall>kw. Got_Trainer kw \<in> set (map fst obs) \<longrightarrow>
         max_epochs kw = Some 10 \<and> accelerator kw = Some ''gpu'' \<and> devices kw = None \<and> strategy kw = None) \<and>
      (\<forall>res. r = Inr res \<longrightarrow>
         filter configuration (map fst obs) = filter configuration notebook_receives)"
    unfolding run using notebook_observed_erased[OF run] 1 2 3 by simp
  then show ?thesis
    unfolding notebook_receives_facts(2)
    by (rule conjI[OF notebook_ignores_other_arguments])
qed

text \<open>
  On the small framework, with a GPU: the run returns, and the observed framework has
  received the calls of \<open>notebook_receives\<close>, the three loaders and the trainer with the
  arguments above among them.
\<close>

theorem notebook_concurrency_settings_witness:
  "case notebook (observed stub_framework) ([], [], True) of (r, tr, obs, w') \<Rightarrow>
     r = Inr ((trainer_kwargs, Some ((Part 0, training_loader_kwargs), (Part 1, validation_loader_kwargs))),
              Best, (Whole False, test_loader_kwargs)) \<and>
     notebook stub_framework ([], True) = (r, tr, True) \<and>
     obs = map (\<lambda>g. (g, None)) notebook_receives \<and>
     filter configuration (map fst obs) =
       [Got_DataLoader \<lparr>batch_size = Some 64, shuffle = Some True, num_workers = Some 4, drop_last = None\<rparr>,
        Got_DataLoader \<lparr>batch_size = Some 64, shuffle = Some False, num_workers = Some 4, drop_last = None\<rparr>,
        Got_DataLoader \<lparr>batch_size = Some 64, shuffle = Some False, num_workers = Some 4, drop_last = None\<rparr>,
        Got_Trainer \<lparr>max_epochs = Some 10, accelerator = Some ''gpu'', devices = None, strategy = None\<rparr>]"
  using notebook_concurrency_settings[where fw = stub_framework and w = True
      and other_loader = "fw_DataLoader stub_framework" and other_trainer = "fw_Trainer stub_framework",
      THEN conjunct2]
  by (simp add: notebook_defs observed_defs)

subsection \<open>C7: the size of a batch\<close>

text \<open>
  Claim C7. Every batch produced by the training, validation and test dataloaders is a
  fixed-size group of samples: every batch delivered during fit or test contains exactly
  \<open>batch_size = 64\<close> samples.

  As stated the claim fails: the loaders are made without \<open>drop_last\<close>, 64 does not
  divide 55,000, and the last of the 860 training batches of an epoch has 24 samples. The
  860 steps per epoch are the ones the stored output counts (\<open>step=8600\<close> after 10
  epochs).
\<close>

theorem last_training_batch_not_full:
  "DataLoader_iter training_loader_kwargs 55000 [0..<55000] =
     Inr (BatchSampler_iter 64 False [] [0..<55000]) \<and>
   length (BatchSampler_iter 64 False [] [0..<55000]) = 860 \<and>
   length (last (BatchSampler_iter 64 False [] [0..<55000])) = 24"
proof -
  have 1: "DataLoader_iter training_loader_kwargs 55000 [0..<55000] =
     Inr (BatchSampler_iter 64 False [] [0..<55000])"
    by (simp add: DataLoader_iter_def training_loader_kwargs_def sampler_order_def)
  have 2: "length (BatchSampler_iter 64 False [] [0..<55000]) = 860"
    using length_BatchSampler_iter[of "[]" 64 "[0..<55000]"] by simp
  have "[0..<55000] \<noteq> []"
    by simp
  from last_batch_BatchSampler_iter[OF _ this, of 64]
  have 3: "length (last (BatchSampler_iter 64 False [] [0..<55000])) = 24"
    unfolding 2 by simp
  from 1 2 3 show ?thesis
    by simp
qed

text \<open>
  Claim C7, amended. Every batch produced by the training, validation and test
  dataloaders has at least one and at most \<open>batch_size = 64\<close> samples; in one pass over a
  partition of \<open>n\<close> samples every sample is delivered exactly once, in
  \<open>\<lceil>n / 64\<rceil>\<close> batches, of which all but the last have exactly 64 samples and the last
  has the rest: 24 for the 55,000 training samples (860 batches), 8 for the 5,000
  validation samples (79 batches).
\<close>

theorem dataloader_batch_sizes:
  assumes "kw = training_loader_kwargs \<or> kw = validation_loader_kwargs \<or> kw = test_loader_kwargs"
    and "distinct randperm" and "set randperm = {0..<n}"
  shows "\<exists>batches. DataLoader_iter kw n randperm = Inr batches \<and>
           distinct (concat batches) \<and> set (concat batches) = {0..<n} \<and>
           length batches = (n + 63) div 64 \<and>
           (\<forall>b \<in> set batches. 0 < length b \<and> length b \<le> 64) \<and>
           (\<forall>i. Suc i < length batches \<longrightarrow> length (batches ! i) = 64) \<and>
           (0 < n \<longrightarrow> length (last batches) = n - 64 * (length batches - 1)) \<and>
           (n = 55000 \<longrightarrow> length batches = 860 \<and> length (last batches) = 24) \<and>
           (n = 5000 \<longrightarrow> length batches = 79 \<and> length (last batches) = 8)"
proof -
  let ?order = "sampler_order (case shuffle kw of Some s \<Rightarrow> s | None \<Rightarrow> False) n randperm"
  have kw: "batch_size kw = Some 64" "drop_last kw = None"
    using assms(1)
    by (auto simp: training_loader_kwargs_def validation_loader_kwargs_def test_loader_kwargs_def)
  have len: "length randperm = n"
    using assms(2,3) by (rule permutation_length)
  have order: "distinct ?order" "set ?order = {0..<n}" "length ?order = n"
    using assms(2,3) len by (simp_all add: sampler_order_def)
  from DataLoader_iter_notebook[OF kw order(3)] obtain batches where
    b: "DataLoader_iter kw n randperm = Inr batches" "concat batches = ?order"
      "length batches = (n + 63) div 64"
      "\<forall>b \<in> set batches. 0 < length b \<and> length b \<le> 64"
      "\<forall>i. Suc i < length batches \<longrightarrow> length (batches ! i) = 64"
      "0 < n \<longrightarrow> length (last batches) = n - 64 * (length batches - 1)"
    by blast
  have c: "distinct (concat batches)" "set (concat batches) = {0..<n}"
    using order by (simp_all add: b(2))
  have t: "n = 55000 \<longrightarrow> length batches = 860 \<and> length (last batches) = 24"
    using b(3,6) by simp
  have v: "n = 5000 \<longrightarrow> length batches = 79 \<and> length (last batches) = 8"
    using b(3,6) by simp
  show ?thesis
    by (intro exI[where x=batches] conjI b(1) c b(3) b(4) b(5) b(6) t v)
qed

theorem dataloader_batch_sizes_witness:
  "\<exists>batches. DataLoader_iter validation_loader_kwargs 5000 [0..<5000] = Inr batches \<and>
     length batches = 79 \<and> length (last batches) = 8"
proof -
  have 1: "validation_loader_kwargs = training_loader_kwargs \<or>
           validation_loader_kwargs = validation_loader_kwargs \<or>
           validation_loader_kwargs = test_loader_kwargs"
    by simp
  have 2: "distinct [0..<5000]" "set [0..<5000] = {0..<5000}"
    by simp_all
  from dataloader_batch_sizes[OF 1 2] show ?thesis
    by auto
qed

subsection \<open>C8: exceptions\<close>

text \<open>
  Claim C8. The notebook contains no validation, retry or explicit failure handling: an
  error raised by the framework during any step (missing dataset, accelerator
  unavailable, shape mismatch) is not caught, no recovery is added, the error reaches the
  caller unchanged, and no operation of the notebook handles or transforms an exception.

  The run is judged by the log that the operations of the library keep themselves, for
  every framework and every world; observing changes nothing: the run on the framework
  itself has the same outcome, events and world. The script: it ends with the framework
  exception \<open>e\<close> exactly when the last operation called raised \<open>e\<close>; every operation
  called before the last one returned; the operations called are an initial segment of
  \<open>notebook_receives\<close>, so that none is called again; a run that returns has called all
  21. The one failure that is not an exception of the framework is Python's own
  \<open>ValueError\<close> for \<open>training_data, validation_data = random_split(...)\<close>: it occurs
  only directly after \<open>random_split\<close> has returned (five calls), and never for a framework
  whose \<open>random_split\<close> of the two lengths returns two parts. \<open>forward\<close>: it raises \<open>e\<close>
  exactly when one of its two linear layers does (the shape mismatch). The three steps
  of the module and \<open>configure_optimizers\<close>: each passes on what the operations it calls
  raise (\<open>passes_on\<close>), for all operations, every batch and every world.
\<close>

theorem notebook_errors_propagate:
  "(case notebook (observed fw) ([], [], w) of (r, tr, obs, w') \<Rightarrow>
      notebook fw ([], w) = (r, tr, w') \<and>
      (\<forall>e. r = Inl (Framework e) \<longleftrightarrow> obs \<noteq> [] \<and> snd (last obs) = Some e) \<and>
      list_all (\<lambda>entry. snd entry = None) (butlast obs) \<and>
      map fst obs = take (length obs) notebook_receives \<and>
      (\<forall>res. r = Inr res \<longrightarrow> length obs = 21) \<and>
      (r = Inl Unpack_ValueError \<longrightarrow> length obs = 5) \<and>
      ((\<forall>ds w0 parts w1. fw_random_split fw ds split_lengths w0 = (Inr parts, w1) \<longrightarrow> length parts = 2) \<longrightarrow>
         r \<noteq> Inl Unpack_ValueError)) \<and>
   (\<forall>e. forward model keep x = Inl e \<longleftrightarrow>
      Linear_forward (layer_1 model) (flatten x) = Inl e \<or>
      (\<exists>h. Linear_forward (layer_1 model) (flatten x) = Inr h \<and>
           Linear_forward (layer_2 model) (Dropout_forward (dropout model) (training model) keep (relu h)) = Inl e)) \<and>
   passes_on (MNISTModel_training_step (observed_api api) batch batch_nb)
     (MNISTModel_training_step api batch batch_nb) 5 \<and>
   passes_on (MNISTModel_validation_step (observed_api api) batch batch_nb)
     (MNISTModel_validation_step api batch batch_nb) 5 \<and>
   passes_on (MNISTModel_test_step (observed_api api) batch batch_nb)
     (MNISTModel_test_step api batch batch_nb) 5 \<and>
   passes_on (MNISTModel_configure_optimizers (observed_api api)) (MNISTModel_configure_optimizers api) 2"
proof -
  obtain r tr obs w' where run: "notebook (observed fw) ([], [], w) = (r, tr, obs, w')"
    by (metis prod_cases4)
  note o = notebook_observed[OF run]
  have 0: "notebook fw ([], w) = (r, tr, w')"
    using run by (rule notebook_observed_erased)
  have 1: "\<forall>e. r = Inl (Framework e) \<longleftrightarrow> obs \<noteq> [] \<and> snd (last obs) = Some e"
    using o(3) by blast
  have 2: "\<forall>res. r = Inr res \<longrightarrow> length obs = 21"
    using o(4) by (auto simp: notebook_receives_facts(1))
  have 3: "r = Inl Unpack_ValueError \<longrightarrow> length obs = 5"
    using o(5) by (auto simp: notebook_receives_facts(1))
  have 4: "(\<forall>ds w0 parts w1. fw_random_split fw ds split_lengths w0 = (Inr parts, w1) \<longrightarrow> length parts = 2) \<longrightarrow>
         r \<noteq> Inl Unpack_ValueError"
  proof
    assume "\<forall>ds w0 parts w1. fw_random_split fw ds split_lengths w0 = (Inr parts, w1) \<longrightarrow> length parts = 2"
    then have "never_unpack_error (notebook (observed fw))"
      by (intro never_unpack_error_notebook observed_random_split)
    with run show "r \<noteq> Inl Unpack_ValueError"
      by (auto simp: never_unpack_error_def)
  qed
  have top: "case notebook (observed fw) ([], [], w) of (r, tr, obs, w') \<Rightarrow>
      notebook fw ([], w) = (r, tr, w') \<and>
      (\<forall>e. r = Inl (Framework e) \<longleftrightarrow> obs \<noteq> [] \<and> snd (last obs) = Some e) \<and>
      list_all (\<lambda>entry. snd entry = None) (butlast obs) \<and>
      map fst obs = take (length obs) notebook_receives \<and>
      (\<forall>res. r = Inr res \<longrightarrow> length obs = 21) \<and>
      (r = Inl Unpack_ValueError \<longrightarrow> length obs = 5) \<and>
      ((\<forall>ds w0 parts w1. fw_random_split fw ds split_lengths w0 = (Inr parts, w1) \<longrightarrow> length parts = 2) \<longrightarrow>
         r \<noteq> Inl Unpack_ValueError)"
    unfolding run using 0 1 o(2) o(1) 2 3 4 by simp
  have fwd: "\<forall>e. forward model keep x = Inl e \<longleftrightarrow>
      Linear_forward (layer_1 model) (flatten x) = Inl e \<or>
      (\<exists>h. Linear_forward (layer_1 model) (flatten x) = Inr h \<and>
           Linear_forward (layer_2 model) (Dropout_forward (dropout model) (training model) keep (relu h)) = Inl e)"
    using forward_raises by blast
  have tr_step: "passes_on (MNISTModel_training_step (observed_api api) batch batch_nb)
     (MNISTModel_training_step api batch batch_nb) 5"
    by (rule passes_onI[OF logs_training_step forgets_training_step]) simp
  have va_step: "passes_on (MNISTModel_validation_step (observed_api api) batch batch_nb)
     (MNISTModel_validation_step api batch batch_nb) 5"
    by (rule passes_onI[OF logs_validation_step forgets_validation_step]) simp
  have te_step: "passes_on (MNISTModel_test_step (observed_api api) batch batch_nb)
     (MNISTModel_test_step api batch batch_nb) 5"
    by (rule passes_onI[OF logs_test_step forgets_test_step]) simp
  have opt: "passes_on (MNISTModel_configure_optimizers (observed_api api))
     (MNISTModel_configure_optimizers api) 2"
    by (rule passes_onI[OF logs_configure_optimizers forgets_configure_optimizers]) simp
  show ?thesis
    by (intro conjI top fwd tr_step va_step te_step opt)
qed

text \<open>
  On the small framework, without a GPU: \<open>Trainer(accelerator='gpu')\<close> raises, the
  exception is the outcome of the notebook, and \<open>fit\<close> and \<open>test\<close> are never called. A
  training batch of one picture of a single pixel: \<open>self(x)\<close> raises \<open>RuntimeError\<close>
  in the first layer, which is the outcome of \<open>training_step\<close>; no loss is computed and
  \<open>self.log\<close> is not called.
\<close>

theorem notebook_errors_propagate_witness:
  "notebook (observed stub_framework) ([], [], False) =
     (Inl (Framework MisconfigurationException),
      map Returned (take 16 notebook_calls) @ [Raised call_Trainer MisconfigurationException],
      map (\<lambda>g. (g, None)) (take 16 notebook_receives) @
        [(Got_Trainer \<lparr>max_epochs = Some 10, accelerator = Some ''gpu'', devices = None, strategy = None\<rparr>,
          Some MisconfigurationException)],
      False) \<and>
   notebook stub_framework ([], False) =
     (Inl (Framework MisconfigurationException),
      map Returned (take 16 notebook_calls) @ [Raised call_Trainer MisconfigurationException],
      False) \<and>
   MNISTModel_training_step (observed_api stub_api) ([[[[0]]]], [0]) 0 ([], ()) =
     (Inl RuntimeError, [(Got_call, Some RuntimeError)], ()) \<and>
   MNISTModel_training_step stub_api ([[[[0]]]], [0]) 0 () = (Inl RuntimeError, ())"
  using notebook_errors_propagate[where fw = stub_framework and w = False and api = stub_api
      and batch = "([[[[0]]]], [0])" and batch_nb = 0
      and model = "(MNISTModel_init (\<lambda>k j. 0) (\<lambda>j. 0) (\<lambda>k j. 0) (\<lambda>k. 0))\<lparr>training := False\<rparr>"
      and keep = "\<lambda>i j. True" and x = "[[[[0]]]]"]
  by (simp add: notebook_defs observed_defs observed_api_def stub_api_def MNISTModel_training_step_def and_then_def
      forward_refines_spec forward_spec_def)

subsection \<open>C9: the number of optimization steps\<close>

text \<open>
  Claim C9. Training terminates after a bounded amount of work: the trainer is made with
  \<open>max_epochs=10\<close>, so \<open>trainer.fit\<close> performs at most 10 epochs over the 55,000-sample
  training partition with batch size 64, that is at most
  \<open>10 * \<lceil>55000 / 64\<rceil> = 8600\<close> optimization steps, and then stops.

  \<open>fit\<close> is a total function (its loop has a termination proof), whatever the training
  step, the validation loop and the shuffled orders do. If none of them raises, the run
  takes exactly 8600 steps in exactly 10 epochs.
\<close>

theorem fit_step_bound:
  assumes "\<forall>epoch<10. length (randperm epoch) = 55000"
  shows "case fit trainer_kwargs (\<lambda>epoch. DataLoader_iter training_loader_kwargs 55000 (randperm epoch))
                training_step validation p0 of
           (err, st) \<Rightarrow>
             global_step st \<le> 10 * ((55000 + 63) div 64) \<and> 10 * ((55000 + 63) div 64) = (8600::nat) \<and>
             current_epoch st \<le> 10 \<and>
             (err = None \<longrightarrow> global_step st = 8600 \<and> current_epoch st = 10)"
proof -
  let ?loader = "\<lambda>epoch. DataLoader_iter training_loader_kwargs 55000 (randperm epoch)"
  let ?st0 = "\<lparr>current_epoch = 0, global_step = 0, params = p0\<rparr>"
  obtain err st where res: "fit_loop 10 ?loader training_step validation ?st0 = (err, st)"
    by (cases "fit_loop 10 ?loader training_step validation ?st0")
  have batches: "\<forall>epoch batches. epoch < 10 \<longrightarrow> ?loader epoch = Inr batches \<longrightarrow> length batches = 860"
  proof (intro allI impI)
    fix epoch batches
    assume "epoch < 10" and l: "?loader epoch = Inr batches"
    with assms have "length (randperm epoch) = 55000"
      by simp
    then have "length (sampler_order (case shuffle training_loader_kwargs of Some s \<Rightarrow> s | None \<Rightarrow> False)
                 55000 (randperm epoch)) = 55000"
      by (simp add: sampler_order_def training_loader_kwargs_def)
    from DataLoader_iter_notebook[OF _ _ this] l show "length batches = 860"
      by (auto simp: training_loader_kwargs_def)
  qed
  have "current_epoch ?st0 \<le> 10"
    by simp
  from fit_loop_steps[OF batches this res] show ?thesis
    by (simp add: fit_def trainer_kwargs_def res)
qed

text \<open>
  A run in which nothing raises: the parameter is a counter of the samples seen, the
  order of every epoch is the reversed one.
\<close>

theorem fit_step_bound_witness:
  "case fit trainer_kwargs (\<lambda>epoch. DataLoader_iter training_loader_kwargs 55000 (rev [0..<55000]))
          (\<lambda>p batch. Inr (p + length batch)) (\<lambda>p. None) (0::nat) of
     (err, st) \<Rightarrow> err = None \<and> global_step st = 8600 \<and> current_epoch st = 10"
proof -
  let ?loader = "\<lambda>epoch::nat. DataLoader_iter training_loader_kwargs 55000 (rev [0..<55000])"
  have h: "\<forall>epoch<10. length ((\<lambda>epoch. rev [0..<55000]) epoch) = 55000"
    by simp
  have "\<forall>epoch. \<exists>batches. ?loader epoch = Inr batches"
    by (simp add: DataLoader_iter_def training_loader_kwargs_def)
  then have "fst (fit trainer_kwargs ?loader (\<lambda>p batch. Inr (p + length batch)) (\<lambda>p. None) (0::nat)) = None"
    unfolding fit_def by (intro fit_loop_never_fails) simp_all
  with fit_step_bound[OF h, of "\<lambda>p batch. Inr (p + length batch)" "\<lambda>p. None" "0::nat"]
  show ?thesis
    by (simp add: split_def)
qed

end
